theory Spec2Isabelle
  imports Main "HOL-Library.Log_Nat"
begin

section \<open>Bank accounts over a database: the handlers of app.py\<close>

text \<open>
  The Flask handlers \<open>create_account\<close>, \<open>get_balance\<close>, \<open>deposit\<close> and
  \<open>withdraw\<close> of \<^verbatim>\<open>app.py\<close>, over the table that \<^verbatim>\<open>models.py\<close> declares.
  A handler is a function of the table's contents and of what the request carries (the
  account number of the URL and the value \<^verbatim>\<open>request.get_json()\<close> returned); it
  returns the response, or the exception that leaves the handler, and the table afterwards.

  Python's values are modelled as Python defines them:
  \<^item> a \<^verbatim>\<open>float\<close> is an IEEE 754 binary64 number: its exact rational value, an
    infinity or NaN, every arithmetic result rounded to the nearest representable value,
    ties to even;
  \<^item> a \<^verbatim>\<open>Decimal\<close> is a sign, a coefficient and an exponent, an infinity or a NaN,
    read from text by the grammar of the \<^verbatim>\<open>decimal\<close> module;
  \<^item> an exception that no \<^verbatim>\<open>except\<close> clause of the handler catches is a value of
    the result (Flask turns it into a 500 response).
\<close>

subsection \<open>Python floats\<close>

datatype pyfloat = Fin rat | Inf bool | Nan

text \<open>
  \<open>Fin q\<close> is the finite float of value \<open>q\<close>, \<open>Inf s\<close> the infinity of sign bit
  \<open>s\<close> (\<open>True\<close> is negative). The two zeros, which compare equal, are both \<open>Fin 0\<close>.
\<close>

definition round_half_even :: "rat \<Rightarrow> int" where
  "round_half_even t =
     (let f = \<lfloor>t\<rfloor>; r = t - of_int f
      in if r < 1 / 2 then f else if 1 / 2 < r then f + 1
         else if even f then f else f + 1)"

text \<open>The binary exponent of a positive rational: \<open>2 ^ ilog2 a \<le> a < 2 ^ (ilog2 a + 1)\<close>.\<close>

definition ilog2 :: "rat \<Rightarrow> int" where
  "ilog2 a =
     (let k = bitlen (fst (quotient_of a)) - bitlen (snd (quotient_of a))
      in if 2 powi k \<le> a then k else k - 1)"

text \<open>
  Rounding to binary64: 53 significant bits, the smallest spacing \<open>2 ^ -1074\<close>
  (subnormal numbers), and an infinity from \<open>2 ^ 1024\<close> on.
\<close>

definition round64 :: "rat \<Rightarrow> pyfloat" where
  "round64 q =
     (if q = 0 then Fin 0
      else
        let a = \<bar>q\<bar>;
            p = max (ilog2 a - 52) (- 1074);
            r = of_int (round_half_even (a / 2 powi p)) * 2 powi p
        in if 2 ^ 1024 \<le> r then Inf (q < 0)
           else Fin (if q < 0 then - r else r))"

text \<open>
  The finite binary64 numbers, as IEEE 754 defines them: an integer of at most 53 bits
  times a power of two between \<open>2 ^ -1074\<close> and \<open>2 ^ 971\<close>. \<open>nearest_float q r\<close>
  says that \<open>r\<close> is one of them and that none of them is closer to \<open>q\<close>.
\<close>

definition is_float :: "rat \<Rightarrow> bool" where
  "is_float z \<longleftrightarrow>
     (\<exists>k p. z = of_int k * 2 powi p \<and> \<bar>k\<bar> < 2 ^ 53 \<and> - 1074 \<le> p \<and> p \<le> 971)"

definition nearest_float :: "rat \<Rightarrow> rat \<Rightarrow> bool" where
  "nearest_float q r \<longleftrightarrow> is_float r \<and> (\<forall>z. is_float z \<longrightarrow> \<bar>r - q\<bar> \<le> \<bar>z - q\<bar>)"

fun fadd :: "pyfloat \<Rightarrow> pyfloat \<Rightarrow> pyfloat" where
  "fadd (Fin x) (Fin y) = round64 (x + y)"
| "fadd Nan _ = Nan"
| "fadd _ Nan = Nan"
| "fadd (Inf s) (Inf t) = (if s = t then Inf s else Nan)"
| "fadd (Inf s) (Fin _) = Inf s"
| "fadd (Fin _) (Inf t) = Inf t"

fun fsub :: "pyfloat \<Rightarrow> pyfloat \<Rightarrow> pyfloat" where
  "fsub (Fin x) (Fin y) = round64 (x - y)"
| "fsub Nan _ = Nan"
| "fsub _ Nan = Nan"
| "fsub (Inf s) (Inf t) = (if s = t then Nan else Inf s)"
| "fsub (Inf s) (Fin _) = Inf s"
| "fsub (Fin _) (Inf t) = Inf (\<not> t)"

text \<open>\<open>x < y\<close> on floats: false whenever an operand is NaN.\<close>

fun flt :: "pyfloat \<Rightarrow> pyfloat \<Rightarrow> bool" where
  "flt (Fin x) (Fin y) = (x < y)"
| "flt Nan _ = False"
| "flt _ Nan = False"
| "flt (Inf s) (Inf t) = (s \<and> \<not> t)"
| "flt (Inf s) (Fin _) = s"
| "flt (Fin _) (Inf t) = (\<not> t)"

subsection \<open>Python Decimals\<close>

datatype decimal = Finite bool int int | Infinity bool | NaN bool bool

text \<open>
  \<open>Finite s c e\<close> is \<open>(-1)^s * c * 10^e\<close>, as \<^verbatim>\<open>as_tuple()\<close> shows it (the
  coefficient \<open>c\<close> is the integer of its digits, never negative);
  \<open>NaN s g\<close> is signalling when \<open>g\<close> holds (its diagnostic digits, which nothing
  reads, are not kept).
\<close>

datatype py_exception = InvalidOperation | TypeError | AttributeError | ValueError | IntegrityError

definition dec_val :: "bool \<Rightarrow> int \<Rightarrow> int \<Rightarrow> rat" where
  "dec_val s c e = (if s then - 1 else 1) * of_int c * 10 powi e"

text \<open>
  \<^verbatim>\<open>x < y\<close> on Decimals compares the exact values; with a NaN operand it signals
  InvalidOperation, which the default context raises.
\<close>

fun Decimal_lt :: "decimal \<Rightarrow> decimal \<Rightarrow> py_exception + bool" where
  "Decimal_lt (NaN _ _) _ = Inl InvalidOperation"
| "Decimal_lt _ (NaN _ _) = Inl InvalidOperation"
| "Decimal_lt (Finite s c e) (Finite t d f) = Inr (dec_val s c e < dec_val t d f)"
| "Decimal_lt (Infinity s) (Infinity t) = Inr (s \<and> \<not> t)"
| "Decimal_lt (Infinity s) (Finite _ _ _) = Inr s"
| "Decimal_lt (Finite _ _ _) (Infinity t) = Inr (\<not> t)"

text \<open>\<^verbatim>\<open>x == y\<close>: a quiet NaN equals nothing, a signalling NaN raises.\<close>

fun Decimal_eq :: "decimal \<Rightarrow> decimal \<Rightarrow> py_exception + bool" where
  "Decimal_eq (NaN s g) y =
     (if g then Inl InvalidOperation
      else case y of NaN _ True \<Rightarrow> Inl InvalidOperation | _ \<Rightarrow> Inr False)"
| "Decimal_eq x (NaN t g) = (if g then Inl InvalidOperation else Inr False)"
| "Decimal_eq (Finite s c e) (Finite t d f) = Inr (dec_val s c e = dec_val t d f)"
| "Decimal_eq (Infinity s) (Infinity t) = Inr (s = t)"
| "Decimal_eq (Infinity _) (Finite _ _ _) = Inr False"
| "Decimal_eq (Finite _ _ _) (Infinity _) = Inr False"

text \<open>
  \<^verbatim>\<open>d.as_tuple().exponent < k\<close>: the exponent of an infinity or a NaN is a string
  (\<^verbatim>\<open>'F'\<close>, \<^verbatim>\<open>'n'\<close>, \<^verbatim>\<open>'N'\<close>), and comparing a string with an integer raises TypeError.
\<close>

fun exponent_lt :: "decimal \<Rightarrow> int \<Rightarrow> py_exception + bool" where
  "exponent_lt (Finite _ _ e) k = Inr (e < k)"
| "exponent_lt (Infinity _) _ = Inl TypeError"
| "exponent_lt (NaN _ _) _ = Inl TypeError"

text \<open>\<^verbatim>\<open>float(d)\<close>: the nearest float; a signalling NaN raises ValueError.\<close>

fun float_of_Decimal :: "decimal \<Rightarrow> py_exception + pyfloat" where
  "float_of_Decimal (Finite s c e) = Inr (round64 (dec_val s c e))"
| "float_of_Decimal (Infinity s) = Inr (Inf s)"
| "float_of_Decimal (NaN _ g) = (if g then Inl ValueError else Inr Nan)"

subsection \<open>Reading a Decimal from text\<close>

text \<open>
  \<^verbatim>\<open>Decimal(s)\<close> strips white space at both ends, drops every underscore, and
  matches, without regard to case: an optional sign, then digits with an optional point
  and an optional exponent, or \<^verbatim>\<open>Inf\<close>, \<^verbatim>\<open>Infinity\<close>, \<^verbatim>\<open>NaN\<close> or \<^verbatim>\<open>sNaN\<close> with
  optional digits. A character is a code point below 256; of these the white space is
  9 to 13, 28 to 32, 133 and 160, and the only decimal digits are \<^verbatim>\<open>0\<close> to \<^verbatim>\<open>9\<close>.
\<close>

definition is_space :: "char \<Rightarrow> bool" where
  "is_space c = (of_char c \<in> {9, 10, 11, 12, 13, 28, 29, 30, 31, 32, 133, 160 :: nat})"

definition is_digit :: "char \<Rightarrow> bool" where
  "is_digit c = (48 \<le> (of_char c :: nat) \<and> (of_char c :: nat) \<le> 57)"

definition lower :: "char \<Rightarrow> char" where
  "lower c = (if 65 \<le> (of_char c :: nat) \<and> (of_char c :: nat) \<le> 90
              then char_of (of_char c + 32 :: nat) else c)"

definition strip :: "string \<Rightarrow> string" where
  "strip s = rev (dropWhile is_space (rev (dropWhile is_space s)))"

definition int_of_digits :: "string \<Rightarrow> int" where
  "int_of_digits ds = foldl (\<lambda>a c. 10 * a + (of_char c - 48)) 0 ds"

definition split_sign :: "string \<Rightarrow> bool \<times> string" where
  "split_sign s =
     (case s of
        [] \<Rightarrow> (False, s)
      | c # r \<Rightarrow> if c = CHR ''-'' then (True, r)
                 else if c = CHR ''+'' then (False, r) else (False, s))"

definition parse_exp :: "string \<Rightarrow> int option" where
  "parse_exp s =
     (let (neg, ds) = split_sign s
      in if ds \<noteq> [] \<and> list_all is_digit ds
         then Some ((if neg then - 1 else 1) * int_of_digits ds)
         else None)"

text \<open>The decimal digits of an integer that is not negative.\<close>

function digits_of :: "int \<Rightarrow> string" where
  "digits_of n =
     (if n < 10 then [char_of (48 + n)]
      else digits_of (n div 10) @ [char_of (48 + n mod 10)])"
  by pat_completeness auto
termination
  by (relation "measure nat") auto

declare digits_of.simps [simp del]

text \<open>
  The module's C implementation, which CPython loads, reads a number exactly or not at
  all: \<^verbatim>\<open>Decimal(s)\<close> raises InvalidOperation when the exponent is below
  \<^verbatim>\<open>MIN_ETINY\<close>, or when the exponent of the leading digit (of a zero, its exponent) is
  above \<^verbatim>\<open>MAX_EMAX\<close>. The third bound, \<^verbatim>\<open>MAX_PREC\<close> digits in the coefficient, is
  beyond any text that fits in memory.
\<close>

definition in_range :: "int \<Rightarrow> int \<Rightarrow> bool" where
  "in_range coeff e \<longleftrightarrow>
     - 1999999999999999997 \<le> e
     \<and> (if coeff = 0 then e else e + int (length (digits_of coeff)) - 1) \<le> 999999999999999999"

definition finite_decimal :: "bool \<Rightarrow> int \<Rightarrow> int \<Rightarrow> decimal option" where
  "finite_decimal sign coeff e = (if in_range coeff e then Some (Finite sign coeff e) else None)"

definition parse_number :: "bool \<Rightarrow> string \<Rightarrow> decimal option" where
  "parse_number sign s =
     (let intpart = takeWhile is_digit s;
          r1 = dropWhile is_digit s;
          has_point = (r1 \<noteq> [] \<and> hd r1 = CHR ''.'');
          fracpart = (if has_point then takeWhile is_digit (tl r1) else []);
          r2 = (if has_point then dropWhile is_digit (tl r1) else r1);
          coeff = int_of_digits (intpart @ fracpart)
      in if intpart = [] \<and> fracpart = [] then None
         else case r2 of
                [] \<Rightarrow> finite_decimal sign coeff (- int (length fracpart))
              | c # r3 \<Rightarrow>
                  if lower c = CHR ''e''
                  then (case parse_exp r3 of
                          None \<Rightarrow> None
                        | Some e \<Rightarrow> finite_decimal sign coeff (e - int (length fracpart)))
                  else None)"

definition parse_special :: "bool \<Rightarrow> string \<Rightarrow> decimal option" where
  "parse_special sign s =
     (let l = map lower s
      in if l = ''inf'' \<or> l = ''infinity'' then Some (Infinity sign)
         else if take 3 l = ''nan'' \<and> list_all is_digit (drop 3 l) then Some (NaN sign False)
         else if take 4 l = ''snan'' \<and> list_all is_digit (drop 4 l) then Some (NaN sign True)
         else None)"

text \<open>\<open>None\<close> is the InvalidOperation that \<^verbatim>\<open>Decimal(s)\<close> raises on other text.\<close>

definition Decimal_of_str :: "string \<Rightarrow> decimal option" where
  "Decimal_of_str s =
     (let (sign, rest) = split_sign (filter (\<lambda>c. c \<noteq> CHR ''_'') (strip s))
      in case parse_number sign rest of
           Some d \<Rightarrow> Some d
         | None \<Rightarrow> parse_special sign rest)"

subsection \<open>The values of a JSON request\<close>

text \<open>
  What \<^verbatim>\<open>request.get_json()\<close> returns: \<open>JNull\<close> is Python's \<^verbatim>\<open>None\<close>, an
  object is a dict. A JSON real number is a Python float; \<open>JFloat s\<close> carries it as
  the text \<open>s\<close> that \<^verbatim>\<open>str\<close> gives for it (\<^verbatim>\<open>0.1\<close>, \<^verbatim>\<open>1e-07\<close>, \<^verbatim>\<open>inf\<close>),
  from which the float is read back.
\<close>

datatype json =
    JNull
  | JBool bool
  | JInt int
  | JFloat string
  | JStr string
  | JArr "json list"
  | JObj "string \<Rightarrow> json option"

definition str_int :: "int \<Rightarrow> string" where
  "str_int i = (if i < 0 then CHR ''-'' # digits_of (- i) else digits_of i)"

text \<open>
  \<^verbatim>\<open>str(v)\<close> for the values that are not containers. The text of a list or of a dict
  is not modelled: it starts with a bracket or a brace.
\<close>

fun py_str :: "json \<Rightarrow> string option" where
  "py_str JNull = Some ''None''"
| "py_str (JBool b) = Some (if b then ''True'' else ''False'')"
| "py_str (JInt i) = Some (str_int i)"
| "py_str (JFloat s) = Some s"
| "py_str (JStr s) = Some s"
| "py_str (JArr _) = None"
| "py_str (JObj _) = None"

text \<open>
  \<^verbatim>\<open>Decimal(str(amount))\<close> under \<^verbatim>\<open>except InvalidOperation\<close>: \<open>None\<close> when the
  exception is raised, as it is for the text of a list or of a dict, which no alternative
  of the grammar accepts.
\<close>

definition Decimal_of_amount :: "json \<Rightarrow> decimal option" where
  "Decimal_of_amount amount =
     (case py_str amount of None \<Rightarrow> None | Some s \<Rightarrow> Decimal_of_str s)"

fun contains :: "string \<Rightarrow> string \<Rightarrow> bool" where
  "contains sub [] = (sub = [])"
| "contains sub (c # cs) = (take (length sub) (c # cs) = sub \<or> contains sub cs)"

fun has_str :: "string \<Rightarrow> json list \<Rightarrow> bool" where
  "has_str k [] = False"
| "has_str k (JStr s # xs) = (s = k \<or> has_str k xs)"
| "has_str k (_ # xs) = has_str k xs"

text \<open>
  \<^verbatim>\<open>data is None or "amount" not in data\<close>, then \<^verbatim>\<open>data.get("amount")\<close>:
  \<open>Inr None\<close> when the test holds, \<open>Inr (Some v)\<close> for the value of the key. On a
  number or a boolean \<^verbatim>\<open>in\<close> raises TypeError; a string or a list that holds
  \<^verbatim>\<open>"amount"\<close> passes the test and has no \<^verbatim>\<open>get\<close>.
\<close>

fun amount_field :: "json \<Rightarrow> py_exception + json option" where
  "amount_field JNull = Inr None"
| "amount_field (JObj m) = Inr (m ''amount'')"
| "amount_field (JStr s) = (if contains ''amount'' s then Inl AttributeError else Inr None)"
| "amount_field (JArr xs) = (if has_str ''amount'' xs then Inl AttributeError else Inr None)"
| "amount_field (JBool _) = Inl TypeError"
| "amount_field (JInt _) = Inl TypeError"
| "amount_field (JFloat _) = Inl TypeError"

subsection \<open>The accounts table\<close>

text \<open>
  models.py: \<^verbatim>\<open>id\<close> is the autoincrement primary key, \<^verbatim>\<open>account_number\<close> is
  unique and not null, \<^verbatim>\<open>balance\<close> is a Float column.
\<close>

record Account =
  id_pk :: nat
  account_number :: string
  balance :: pyfloat

record store =
  accounts :: "Account list"
  next_id :: nat

text \<open>\<^verbatim>\<open>db.query(Account).filter_by(account_number=n).first()\<close>\<close>

definition find_account :: "store \<Rightarrow> string \<Rightarrow> Account option" where
  "find_account st n = find (\<lambda>a. account_number a = n) (accounts st)"

text \<open>
  \<^verbatim>\<open>db.add(new_account); db.commit()\<close>: the row gets the next id; the unique
  constraint on \<^verbatim>\<open>account_number\<close> refuses a number the table already holds, and the
  commit raises IntegrityError with no row added (the sequence of ids moves on all the
  same).
\<close>

definition insert_account :: "store \<Rightarrow> string \<Rightarrow> pyfloat \<Rightarrow> py_exception + Account \<times> store" where
  "insert_account st n b =
     (if n \<in> set (map account_number (accounts st)) then Inl IntegrityError
      else
        let a = \<lparr>id_pk = next_id st, account_number = n, balance = b\<rparr>
        in Inr (a, st\<lparr>accounts := accounts st @ [a], next_id := next_id st + 1\<rparr>))"

text \<open>
  \<^verbatim>\<open>account.balance = b; db.commit()\<close>: the row of the account's primary key is
  updated.
\<close>

definition set_balance :: "store \<Rightarrow> Account \<Rightarrow> pyfloat \<Rightarrow> store" where
  "set_balance st a b =
     st\<lparr>accounts := map (\<lambda>r. if id_pk r = id_pk a then r\<lparr>balance := b\<rparr> else r) (accounts st)\<rparr>"

subsection \<open>Responses\<close>

datatype body = Error string | Balance pyfloat | Created string pyfloat

datatype response = Response int body

type_synonym outcome = "(py_exception + response) \<times> store"

definition MAX_AMOUNT :: decimal where
  "MAX_AMOUNT = Finite False 99999999 0"

text \<open>The Decimal of the integer literal \<^verbatim>\<open>0\<close> in \<^verbatim>\<open>d < 0\<close> and \<^verbatim>\<open>d == 0\<close>.\<close>

definition Decimal_zero :: decimal where
  "Decimal_zero = Finite False 0 0"

subsection \<open>The handlers\<close>

text \<open>The message \<^verbatim>\<open>Invalid or missing JSON payload or 'amount'\<close>, which ends with a quote.\<close>

definition missing_amount :: string where
  "missing_amount = ''Invalid or missing JSON payload or '' @ [CHR 0x27] @ ''amount'' @ [CHR 0x27]"

text \<open>
  The value bound to the Float column when an account is created: a JSON integer is
  stored as the nearest float, a JSON real number as itself. What the storage engine
  makes of any other value (a string, null, a boolean, a container, an integer beyond the
  floats) is not in the source: \<open>None\<close>.
\<close>

fun column_Float :: "json \<Rightarrow> pyfloat option" where
  "column_Float (JInt i) = (case round64 (of_int i) of Fin q \<Rightarrow> Some (Fin q) | _ \<Rightarrow> None)"
| "column_Float (JFloat s) =
     (case Decimal_of_str s of
        None \<Rightarrow> None
      | Some d \<Rightarrow> (case float_of_Decimal d of Inl _ \<Rightarrow> None | Inr x \<Rightarrow> Some x))"
| "column_Float _ = None"

text \<open>\<^verbatim>\<open>data is None\<close>\<close>

fun is_None :: "json \<Rightarrow> bool" where
  "is_None JNull = True"
| "is_None _ = False"

text \<open>\<^verbatim>\<open>data.get("balance", 0.0)\<close>; only a dict has \<^verbatim>\<open>get\<close>.\<close>

fun balance_field :: "json \<Rightarrow> py_exception + pyfloat option" where
  "balance_field (JObj m) =
     (case m ''balance'' of None \<Rightarrow> Inr (Some (Fin 0)) | Some v \<Rightarrow> Inr (column_Float v))"
| "balance_field _ = Inl AttributeError"

text \<open>
  \<open>create_account r st data\<close>: \<open>r\<close> is the number that
  \<^verbatim>\<open>random.randint(1000, 9999)\<close> returned. The result is \<open>None\<close> where the initial
  balance is a value that \<open>column_Float\<close> leaves to the storage engine.
\<close>

definition create_account :: "int \<Rightarrow> store \<Rightarrow> json \<Rightarrow> outcome option" where
  "create_account r st data =
     (if is_None data
      then Some (Inr (Response 400 (Error ''Invalid or missing JSON payload'')), st)
      else
        case balance_field data of
          Inl e \<Rightarrow> Some (Inl e, st)
        | Inr None \<Rightarrow> None
        | Inr (Some b) \<Rightarrow>
            (case insert_account st (str_int r) b of
               Inl e \<Rightarrow> Some (Inl e, st\<lparr>next_id := next_id st + 1\<rparr>)
             | Inr (new_account, st') \<Rightarrow>
                 Some (Inr (Response 201
                         (Created (account_number new_account) (balance new_account))), st')))"

definition get_balance :: "store \<Rightarrow> string \<Rightarrow> response" where
  "get_balance st n =
     (case find_account st n of
        None \<Rightarrow> Response 404 (Error ''Account not found'')
      | Some account \<Rightarrow> Response 200 (Balance (balance account)))"

definition deposit :: "store \<Rightarrow> string \<Rightarrow> json \<Rightarrow> outcome" where
  "deposit st n data =
     (case find_account st n of
        None \<Rightarrow> (Inr (Response 404 (Error ''Account not found'')), st)
      | Some account \<Rightarrow>
     (case amount_field data of
        Inl e \<Rightarrow> (Inl e, st)
      | Inr None \<Rightarrow>
          (Inr (Response 400 (Error missing_amount)), st)
      | Inr (Some amount) \<Rightarrow>
     (case Decimal_of_amount amount of
        None \<Rightarrow>
          (Inr (Response 400 (Error
            ''Deposit failed - Amount must be numeric and have at most 2 decimal places'')), st)
      | Some d \<Rightarrow>
     (case Decimal_lt d Decimal_zero of
        Inl e \<Rightarrow> (Inl e, st)
      | Inr True \<Rightarrow> (Inr (Response 400 (Error ''Amount cannot be negative'')), st)
      | Inr False \<Rightarrow>
     (case Decimal_eq d Decimal_zero of
        Inl e \<Rightarrow> (Inl e, st)
      | Inr True \<Rightarrow> (Inr (Response 400 (Error ''Amount must be greater than zero'')), st)
      | Inr False \<Rightarrow>
     (case exponent_lt d (- 2) of
        Inl e \<Rightarrow> (Inl e, st)
      | Inr True \<Rightarrow>
          (Inr (Response 400 (Error
            ''Deposit failed - Amount must have at most 2 decimal places'')), st)
      | Inr False \<Rightarrow>
     (case Decimal_lt MAX_AMOUNT d of
        Inl e \<Rightarrow> (Inl e, st)
      | Inr True \<Rightarrow> (Inr (Response 400 (Error ''Amount exceeds maximum allowed value'')), st)
      | Inr False \<Rightarrow>
     (case float_of_Decimal d of
        Inl e \<Rightarrow> (Inl e, st)
      | Inr x \<Rightarrow>
          let updated_balance = fadd (balance account) x
          in (Inr (Response 200 (Balance updated_balance)),
              set_balance st account updated_balance)))))))))"

definition withdraw :: "store \<Rightarrow> string \<Rightarrow> json \<Rightarrow> outcome" where
  "withdraw st n data =
     (case find_account st n of
        None \<Rightarrow> (Inr (Response 404 (Error ''Account not found'')), st)
      | Some account \<Rightarrow>
     (case amount_field data of
        Inl e \<Rightarrow> (Inl e, st)
      | Inr None \<Rightarrow>
          (Inr (Response 400 (Error missing_amount)), st)
      | Inr (Some amount) \<Rightarrow>
     (case Decimal_of_amount amount of
        None \<Rightarrow>
          (Inr (Response 400 (Error
            ''Withdrawal failed - Amount must be numeric and have at most 2 decimal places'')), st)
      | Some d \<Rightarrow>
     (case Decimal_lt d Decimal_zero of
        Inl e \<Rightarrow> (Inl e, st)
      | Inr True \<Rightarrow> (Inr (Response 400 (Error ''Amount cannot be negative'')), st)
      | Inr False \<Rightarrow>
     (case Decimal_eq d Decimal_zero of
        Inl e \<Rightarrow> (Inl e, st)
      | Inr True \<Rightarrow> (Inr (Response 400 (Error ''Amount must be greater than zero'')), st)
      | Inr False \<Rightarrow>
     (case exponent_lt d (- 2) of
        Inl e \<Rightarrow> (Inl e, st)
      | Inr True \<Rightarrow>
          (Inr (Response 400 (Error
            ''Withdrawal failed - Amount must have at most 2 decimal places'')), st)
      | Inr False \<Rightarrow>
     (case Decimal_lt MAX_AMOUNT d of
        Inl e \<Rightarrow> (Inl e, st)
      | Inr True \<Rightarrow> (Inr (Response 400 (Error ''Amount exceeds maximum allowed value'')), st)
      | Inr False \<Rightarrow>
     (case float_of_Decimal d of
        Inl e \<Rightarrow> (Inl e, st)
      | Inr x \<Rightarrow>
          if flt (balance account) x
          then (Inr (Response 400 (Error ''Insufficient balance'')), st)
          else
            let updated_balance = fsub (balance account) x
            in (Inr (Response 200 (Balance updated_balance)),
                set_balance st account updated_balance)))))))))"

subsection \<open>The specification's side\<close>

text \<open>
  The two operations that validate an amount, and the handler of each.
\<close>

datatype operation = Deposit | Withdraw

fun handler :: "operation \<Rightarrow> store \<Rightarrow> string \<Rightarrow> json \<Rightarrow> outcome" where
  "handler Deposit = deposit"
| "handler Withdraw = withdraw"

text \<open>
  The error kinds of the AmountValidator (section 4.1), and what each rule asks of the
  raw value, in the specification's words: convertible to an exact decimal number; not
  negative; not exactly zero; at most 2 digits after the decimal point in the exact
  decimal representation; not above 99,999,999. An infinity and a NaN are Decimals, but
  no decimal numbers of an exact value: they fail the first rule.
\<close>

datatype error_kind = NotNumeric | Negative | Zero | TooManyDecimals | ExceedsMaximum

text \<open>The digits after the decimal point of a Decimal as it is written: its scale.\<close>

fun fraction_digits :: "decimal \<Rightarrow> nat" where
  "fraction_digits (Finite _ _ e) = nat (- e)"
| "fraction_digits _ = 0"

text \<open>A Decimal that is no number of an exact value: an infinity or a NaN.\<close>

fun special :: "decimal \<Rightarrow> bool" where
  "special (Finite _ _ _) = False"
| "special (Infinity _) = True"
| "special (NaN _ _) = True"

fun rule_fails :: "error_kind \<Rightarrow> decimal option \<Rightarrow> bool" where
  "rule_fails NotNumeric None = True"
| "rule_fails NotNumeric (Some d) = special d"
| "rule_fails Negative (Some (Finite s c e)) = (dec_val s c e < 0)"
| "rule_fails Negative _ = False"
| "rule_fails Zero (Some (Finite s c e)) = (dec_val s c e = 0)"
| "rule_fails Zero _ = False"
| "rule_fails TooManyDecimals (Some d) = (2 < fraction_digits d)"
| "rule_fails TooManyDecimals None = False"
| "rule_fails ExceedsMaximum (Some (Finite s c e)) = (99999999 < dec_val s c e)"
| "rule_fails ExceedsMaximum _ = False"

text \<open>
  A number has at most 2 digits after the decimal point when a hundred times the number
  is an integer.
\<close>

definition at_most_2_decimals :: "rat \<Rightarrow> bool" where
  "at_most_2_decimals v \<longleftrightarrow> of_int \<lfloor>v * 100\<rfloor> = v * 100"

definition rule_order :: "error_kind list" where
  "rule_order = [NotNumeric, Negative, Zero, TooManyDecimals, ExceedsMaximum]"

definition first_failing :: "json \<Rightarrow> error_kind option" where
  "first_failing raw = find (\<lambda>k. rule_fails k (Decimal_of_amount raw)) rule_order"

text \<open>The messages of section 6 of the specification, by operation and condition.\<close>

fun op_name :: "operation \<Rightarrow> string" where
  "op_name Deposit = ''Deposit''"
| "op_name Withdraw = ''Withdrawal''"

fun validation_message :: "operation \<Rightarrow> error_kind \<Rightarrow> string" where
  "validation_message opn NotNumeric =
     op_name opn @ '' failed - Amount must be numeric and have at most 2 decimal places''"
| "validation_message opn Negative = ''Amount cannot be negative''"
| "validation_message opn Zero = ''Amount must be greater than zero''"
| "validation_message opn TooManyDecimals =
     op_name opn @ '' failed - Amount must have at most 2 decimal places''"
| "validation_message opn ExceedsMaximum = ''Amount exceeds maximum allowed value''"

declare validation_message.simps [simp del]

text \<open>The response of a handler that rejects the amount for a rule, the table untouched.\<close>

definition rejected :: "operation \<Rightarrow> error_kind \<Rightarrow> store \<Rightarrow> outcome" where
  "rejected opn k st = (Inr (Response 400 (Error (validation_message opn k))), st)"

text \<open>The error kind that a response reports, read from its message.\<close>

definition reported_kind :: "operation \<Rightarrow> response \<Rightarrow> error_kind option" where
  "reported_kind opn resp =
     find (\<lambda>k. resp = Response 400 (Error (validation_message opn k))) rule_order"

datatype condition = AccountMissing | AmountMissing | Invalid error_kind | Insufficient

fun spec_status :: "condition \<Rightarrow> int" where
  "spec_status AccountMissing = 404"
| "spec_status _ = 400"

fun spec_message :: "operation \<Rightarrow> condition \<Rightarrow> string" where
  "spec_message opn AccountMissing = ''Account not found''"
| "spec_message opn AmountMissing = ''Invalid or missing JSON payload or 'amount'' @ [CHR 0x27]"
| "spec_message opn (Invalid k) = validation_message opn k"
| "spec_message opn Insufficient = ''Insufficient balance''"

text \<open>The \<^verbatim>\<open>amount\<close> field of a request body, when the body is an object that has one.\<close>

fun amount_of :: "json \<Rightarrow> json option" where
  "amount_of (JObj m) = m ''amount''"
| "amount_of _ = None"

text \<open>
  The condition a request fails on before its balance is looked at, in the order of
  section 4.2: the account, the field, the amount.
\<close>

definition request_condition :: "store \<Rightarrow> string \<Rightarrow> json \<Rightarrow> condition option" where
  "request_condition st n data =
     (case find_account st n of
        None \<Rightarrow> Some AccountMissing
      | Some _ \<Rightarrow>
          (case amount_of data of
             None \<Rightarrow> Some AmountMissing
           | Some raw \<Rightarrow> map_option Invalid (first_failing raw)))"

text \<open>\<^verbatim>\<open>balance >= 0\<close> on a float.\<close>

fun nonneg :: "pyfloat \<Rightarrow> bool" where
  "nonneg (Fin q) = (0 \<le> q)"
| "nonneg (Inf s) = (\<not> s)"
| "nonneg Nan = False"

text \<open>A request body \<^verbatim>\<open>{"amount": v}\<close>.\<close>

definition amount_body :: "json \<Rightarrow> json" where
  "amount_body v = JObj [''amount'' \<mapsto> v]"

text \<open>
  The request bodies of section 6: none (\<^verbatim>\<open>get_json\<close> returns \<^verbatim>\<open>None\<close>) or a JSON
  object.
\<close>

fun is_payload :: "json \<Rightarrow> bool" where
  "is_payload JNull = True"
| "is_payload (JObj _) = True"
| "is_payload _ = False"

text \<open>
  \<open>current balance < validated amount\<close> (section 4.2, step 3 of withdraw), the
  validated amount being the exact decimal number.
\<close>

fun balance_below :: "pyfloat \<Rightarrow> rat \<Rightarrow> bool" where
  "balance_below (Fin b) a = (b < a)"
| "balance_below (Inf s) a = s"
| "balance_below Nan a = False"

text \<open>The last condition, of a withdrawal only, on an amount that passes every rule.\<close>

definition insufficient :: "store \<Rightarrow> string \<Rightarrow> json \<Rightarrow> bool" where
  "insufficient st n data =
     (case find_account st n of
        None \<Rightarrow> False
      | Some a \<Rightarrow>
          (case amount_of data of
             None \<Rightarrow> False
           | Some raw \<Rightarrow>
               (case Decimal_of_amount raw of
                  Some (Finite s c e) \<Rightarrow> balance_below (balance a) (dec_val s c e)
                | _ \<Rightarrow> False)))"

definition condition_of :: "operation \<Rightarrow> store \<Rightarrow> string \<Rightarrow> json \<Rightarrow> condition option" where
  "condition_of opn st n data =
     (case request_condition st n data of
        Some c \<Rightarrow> Some c
      | None \<Rightarrow> if opn = Withdraw \<and> insufficient st n data then Some Insufficient else None)"

text \<open>
  The answer that section 6 gives to a request that fails on a condition: the status, the
  message, and (section 7) nothing changed.
\<close>

definition spec_answer :: "operation \<Rightarrow> condition \<Rightarrow> store \<Rightarrow> outcome" where
  "spec_answer opn c st = (Inr (Response (spec_status c) (Error (spec_message opn c))), st)"

text \<open>A request body that is a JSON number or a boolean.\<close>

fun is_scalar :: "json \<Rightarrow> bool" where
  "is_scalar (JBool _) = True"
| "is_scalar (JInt _) = True"
| "is_scalar (JFloat _) = True"
| "is_scalar _ = False"

text \<open>A table with the single account 1234, of a given balance.\<close>

definition one_account :: "pyfloat \<Rightarrow> store" where
  "one_account b =
     \<lparr>accounts = [\<lparr>id_pk = 1, account_number = ''1234'', balance = b\<rparr>], next_id = 2\<rparr>"

text \<open>A table with the accounts 1234 and 5678.\<close>

definition two_accounts :: store where
  "two_accounts =
     \<lparr>accounts = [\<lparr>id_pk = 1, account_number = ''1234'', balance = Fin 30\<rparr>,
                  \<lparr>id_pk = 2, account_number = ''5678'', balance = Fin 7\<rparr>],
      next_id = 3\<rparr>"

section \<open>What the handlers do, case by case\<close>

lemma dec_val_zero: "dec_val False 0 0 = 0"
  by (simp add: dec_val_def)

lemma dec_val_max: "dec_val False 99999999 0 = 99999999"
  by (simp add: dec_val_def)

lemma amount_of_field: "amount_of data = Some raw \<Longrightarrow> amount_field data = Inr (Some raw)"
  by (cases data) simp_all

lemma amount_field_of: "amount_field data = Inr x \<Longrightarrow> amount_of data = x"
  by (cases data) (simp_all split: if_splits)

lemma handler_no_account:
  "find_account st n = None \<Longrightarrow>
   handler opn st n data = (Inr (Response 404 (Error ''Account not found'')), st)"
  by (cases opn) (simp_all add: deposit_def withdraw_def)

lemma handler_field_raises:
  "find_account st n = Some a \<Longrightarrow> amount_field data = Inl x \<Longrightarrow>
   handler opn st n data = (Inl x, st)"
  by (cases opn) (simp_all add: deposit_def withdraw_def)

lemma handler_no_field:
  "find_account st n = Some a \<Longrightarrow> amount_field data = Inr None \<Longrightarrow>
   handler opn st n data = (Inr (Response 400 (Error missing_amount)), st)"
  by (cases opn) (simp_all add: deposit_def withdraw_def)

lemma handler_not_numeric:
  "find_account st n = Some a \<Longrightarrow> amount_field data = Inr (Some raw) \<Longrightarrow>
   Decimal_of_amount raw = None \<Longrightarrow>
   handler opn st n data = rejected opn NotNumeric st"
  by (cases opn)
     (simp_all add: deposit_def withdraw_def rejected_def validation_message.simps)

lemma handler_NaN:
  "find_account st n = Some a \<Longrightarrow> amount_field data = Inr (Some raw) \<Longrightarrow>
   Decimal_of_amount raw = Some (NaN s g) \<Longrightarrow>
   handler opn st n data = (Inl InvalidOperation, st)"
  by (cases opn) (simp_all add: deposit_def withdraw_def Decimal_zero_def)

lemma handler_Infinity:
  "find_account st n = Some a \<Longrightarrow> amount_field data = Inr (Some raw) \<Longrightarrow>
   Decimal_of_amount raw = Some (Infinity s) \<Longrightarrow>
   handler opn st n data = (if s then rejected opn Negative st else (Inl TypeError, st))"
  by (cases opn)
     (simp_all add: deposit_def withdraw_def rejected_def Decimal_zero_def
        validation_message.simps)

lemma handler_Finite:
  assumes "find_account st n = Some a" "amount_field data = Inr (Some raw)"
    "Decimal_of_amount raw = Some (Finite s c e)"
  shows "handler opn st n data =
    (if dec_val s c e < 0 then rejected opn Negative st
     else if dec_val s c e = 0 then rejected opn Zero st
     else if e < - 2 then rejected opn TooManyDecimals st
     else if 99999999 < dec_val s c e then rejected opn ExceedsMaximum st
     else if opn = Deposit
       then (Inr (Response 200 (Balance (fadd (balance a) (round64 (dec_val s c e))))),
             set_balance st a (fadd (balance a) (round64 (dec_val s c e))))
     else if flt (balance a) (round64 (dec_val s c e))
       then (Inr (Response 400 (Error ''Insufficient balance'')), st)
     else (Inr (Response 200 (Balance (fsub (balance a) (round64 (dec_val s c e))))),
             set_balance st a (fsub (balance a) (round64 (dec_val s c e)))))"
  using assms
  by (cases opn)
     (simp_all add: deposit_def withdraw_def rejected_def Decimal_zero_def MAX_AMOUNT_def
        validation_message.simps dec_val_zero dec_val_max Let_def)

lemma first_failing_None:
  "Decimal_of_amount raw = None \<Longrightarrow> first_failing raw = Some NotNumeric"
  by (simp add: first_failing_def rule_order_def)

lemma first_failing_Finite:
  "Decimal_of_amount raw = Some (Finite s c e) \<Longrightarrow>
   first_failing raw =
     (if dec_val s c e < 0 then Some Negative
      else if dec_val s c e = 0 then Some Zero
      else if e < - 2 then Some TooManyDecimals
      else if 99999999 < dec_val s c e then Some ExceedsMaximum
      else None)"
  by (auto simp add: first_failing_def rule_order_def)

lemma first_failing_Infinity:
  "Decimal_of_amount raw = Some (Infinity s) \<Longrightarrow> first_failing raw = Some NotNumeric"
  by (simp add: first_failing_def rule_order_def)

lemma first_failing_NaN:
  "Decimal_of_amount raw = Some (NaN s g) \<Longrightarrow> first_failing raw = Some NotNumeric"
  by (simp add: first_failing_def rule_order_def)

lemma reported_kind_rejected:
  "reported_kind opn (Response 400 (Error (validation_message opn k))) = Some k"
  by (cases opn; cases k)
     (simp_all add: reported_kind_def rule_order_def validation_message.simps)

section \<open>The order of the validation rules\<close>

lemma validation_message_inject:
  "validation_message opn k = validation_message opn k' \<Longrightarrow> k = k'"
  by (cases opn; cases k; cases k') (simp_all add: validation_message.simps)

lemma first_failing_valid:
  assumes "first_failing raw = None"
  shows "\<exists>s c e. Decimal_of_amount raw = Some (Finite s c e) \<and> 0 < dec_val s c e
           \<and> - 2 \<le> e \<and> dec_val s c e \<le> 99999999"
proof (cases "Decimal_of_amount raw")
  case None
  with assms show ?thesis by (simp add: first_failing_None)
next
  case (Some d)
  show ?thesis
  proof (cases d)
    case (Finite s c e)
    with Some have D: "Decimal_of_amount raw = Some (Finite s c e)" by simp
    from assms D show ?thesis
      unfolding first_failing_Finite [OF D] by (auto split: if_splits)
  next
    case (Infinity s)
    with Some assms show ?thesis by (simp add: first_failing_Infinity)
  next
    case (NaN s g)
    with Some assms show ?thesis by (simp add: first_failing_NaN)
  qed
qed

lemma rejects_first_failing:
  assumes "find_account st n = Some a" and "amount_of data = Some raw"
    and "first_failing raw = Some k" and "\<forall>d. Decimal_of_amount raw = Some d \<longrightarrow> \<not> special d"
  shows "handler opn st n data = rejected opn k st"
proof -
  note f = amount_of_field [OF assms(2)]
  show ?thesis
  proof (cases "Decimal_of_amount raw")
    case None
    with assms(3) have "k = NotNumeric" by (simp add: first_failing_None)
    with None assms(1) f show ?thesis by (simp add: handler_not_numeric)
  next
    case (Some d)
    with assms(4) have "\<not> special d" by simp
    then obtain s c e where "d = Finite s c e" by (cases d) simp_all
    with Some have D: "Decimal_of_amount raw = Some (Finite s c e)" by simp
    from assms(3) show ?thesis
      unfolding handler_Finite [OF assms(1) f D] first_failing_Finite [OF D]
      by (auto split: if_splits)
  qed
qed

lemma accepts_valid:
  assumes "find_account st n = Some a" and "amount_of data = Some raw"
    and "first_failing raw = None"
  shows "(\<exists>x. handler opn st n data = (Inr (Response 200 (Balance x)), set_balance st a x))
       \<or> (opn = Withdraw
           \<and> handler opn st n data = (Inr (Response 400 (Error ''Insufficient balance'')), st))"
proof -
  note f = amount_of_field [OF assms(2)]
  from first_failing_valid [OF assms(3)] obtain s c e where
    D: "Decimal_of_amount raw = Some (Finite s c e)" and v: "0 < dec_val s c e" "- 2 \<le> e"
      "dec_val s c e \<le> 99999999" by blast
  from v show ?thesis
    unfolding handler_Finite [OF assms(1) f D]
    by (cases opn) auto
qed

text \<open>
  Claim C5, which the handlers miss on the amounts that are no exact decimal numbers. On
  an existing account, for a request that carries an amount: when the amount fails a rule
  and is no infinity and no NaN, the handler of a deposit and the handler of a withdrawal
  reject it with the message of the first rule it fails, in the order NotNumeric,
  Negative, Zero, TooManyDecimals, ExceedsMaximum, and leave the table as it was (a
  negative amount with three decimal places is reported as Negative, a zero with three as
  Zero); when it passes every rule, the deposit is made, and the withdrawal is made or
  refused for the balance. The messages of two rules differ, so the response tells the
  rule. An infinity and a NaN fail the first rule, and are not reported as NotNumeric: on
  a NaN the handler raises InvalidOperation, on the positive infinity it raises TypeError,
  and the negative infinity it reports as Negative.
\<close>

theorem validation_order:
  assumes "find_account st n = Some a" and "amount_of data = Some raw"
  shows "(\<forall>k. first_failing raw = Some k \<and> (\<forall>d. Decimal_of_amount raw = Some d \<longrightarrow> \<not> special d) \<longrightarrow>
            handler opn st n data = rejected opn k st)
       \<and> (first_failing raw = None \<longrightarrow>
            (\<exists>x. handler opn st n data = (Inr (Response 200 (Balance x)), set_balance st a x))
            \<or> (opn = Withdraw
                \<and> handler opn st n data
                    = (Inr (Response 400 (Error ''Insufficient balance'')), st)))
       \<and> (\<forall>k k'. validation_message opn k = validation_message opn k' \<longrightarrow> k = k')
       \<and> (\<forall>s g. Decimal_of_amount raw = Some (NaN s g) \<longrightarrow>
            first_failing raw = Some NotNumeric
            \<and> handler opn st n data = (Inl InvalidOperation, st))
       \<and> (Decimal_of_amount raw = Some (Infinity False) \<longrightarrow>
            first_failing raw = Some NotNumeric \<and> handler opn st n data = (Inl TypeError, st))
       \<and> (Decimal_of_amount raw = Some (Infinity True) \<longrightarrow>
            first_failing raw = Some NotNumeric
            \<and> handler opn st n data = rejected opn Negative st)"
proof (intro conjI allI impI)
  fix k
  assume "first_failing raw = Some k \<and> (\<forall>d. Decimal_of_amount raw = Some d \<longrightarrow> \<not> special d)"
  then show "handler opn st n data = rejected opn k st"
    using rejects_first_failing [OF assms] by blast
next
  assume "first_failing raw = None"
  then show "(\<exists>x. handler opn st n data = (Inr (Response 200 (Balance x)), set_balance st a x))
            \<or> (opn = Withdraw
                \<and> handler opn st n data
                    = (Inr (Response 400 (Error ''Insufficient balance'')), st))"
    by (rule accepts_valid [OF assms])
next
  fix k k'
  assume "validation_message opn k = validation_message opn k'"
  then show "k = k'" by (rule validation_message_inject)
next
  fix s g
  assume D: "Decimal_of_amount raw = Some (NaN s g)"
  then show "first_failing raw = Some NotNumeric" by (rule first_failing_NaN)
  from D show "handler opn st n data = (Inl InvalidOperation, st)"
    by (rule handler_NaN [OF assms(1) amount_of_field [OF assms(2)]])
next
  assume D: "Decimal_of_amount raw = Some (Infinity False)"
  then show "first_failing raw = Some NotNumeric" by (rule first_failing_Infinity)
  from handler_Infinity [OF assms(1) amount_of_field [OF assms(2)] D]
  show "handler opn st n data = (Inl TypeError, st)" by simp
next
  assume D: "Decimal_of_amount raw = Some (Infinity True)"
  then show "first_failing raw = Some NotNumeric" by (rule first_failing_Infinity)
  from handler_Infinity [OF assms(1) amount_of_field [OF assms(2)] D]
  show "handler opn st n data = rejected opn Negative st" by simp
qed

theorem validation_order_witness:
  "find_account (one_account (Fin 30)) ''1234''
     = Some \<lparr>id_pk = 1, account_number = ''1234'', balance = Fin 30\<rparr>
   \<and> amount_of (amount_body (JStr ''-1.005'')) = Some (JStr ''-1.005'')
   \<and> Decimal_of_amount (JStr ''-1.005'') = Some (Finite True 1005 (- 3))
   \<and> first_failing (JStr ''-1.005'') = Some Negative
   \<and> handler Deposit (one_account (Fin 30)) ''1234'' (amount_body (JStr ''-1.005''))
       = (Inr (Response 400 (Error ''Amount cannot be negative'')), one_account (Fin 30))
   \<and> Decimal_of_amount (JStr ''0.000'') = Some (Finite False 0 (- 3))
   \<and> first_failing (JStr ''0.000'') = Some Zero
   \<and> handler Withdraw (one_account (Fin 30)) ''1234'' (amount_body (JStr ''0.000''))
       = (Inr (Response 400 (Error ''Amount must be greater than zero'')), one_account (Fin 30))
   \<and> Decimal_of_amount (JStr ''abc'') = None
   \<and> first_failing (JStr ''abc'') = Some NotNumeric
   \<and> handler Withdraw (one_account (Fin 30)) ''1234'' (amount_body (JStr ''abc''))
       = (Inr (Response 400 (Error
            ''Withdrawal failed - Amount must be numeric and have at most 2 decimal places'')),
          one_account (Fin 30))
   \<and> first_failing (JStr ''12.50'') = None
   \<and> handler Deposit (one_account (Fin 30)) ''1234'' (amount_body (JStr ''12.50''))
       = (Inr (Response 200 (Balance (Fin (85 / 2)))), one_account (Fin (85 / 2)))
   \<and> Decimal_of_amount (JStr ''NaN'') = Some (NaN False False)
   \<and> first_failing (JStr ''NaN'') = Some NotNumeric
   \<and> handler Deposit (one_account (Fin 30)) ''1234'' (amount_body (JStr ''NaN''))
       = (Inl InvalidOperation, one_account (Fin 30))
   \<and> Decimal_of_amount (JStr ''Infinity'') = Some (Infinity False)
   \<and> first_failing (JStr ''Infinity'') = Some NotNumeric
   \<and> handler Withdraw (one_account (Fin 30)) ''1234'' (amount_body (JStr ''Infinity''))
       = (Inl TypeError, one_account (Fin 30))
   \<and> Decimal_of_amount (JStr ''-Infinity'') = Some (Infinity True)
   \<and> first_failing (JStr ''-Infinity'') = Some NotNumeric
   \<and> handler Deposit (one_account (Fin 30)) ''1234'' (amount_body (JStr ''-Infinity''))
       = (Inr (Response 400 (Error ''Amount cannot be negative'')), one_account (Fin 30))"
proof -
  let ?st = "one_account (Fin 30)"
  let ?a = "\<lparr>id_pk = 1, account_number = ''1234'', balance = Fin 30\<rparr>"
  have a: "find_account ?st ''1234'' = Some ?a" by code_simp
  have b: "amount_of (amount_body v) = Some v" for v by (simp add: amount_body_def)
  have d1: "Decimal_of_amount (JStr ''-1.005'') = Some (Finite True 1005 (- 3))" by code_simp
  have f1: "first_failing (JStr ''-1.005'') = Some Negative" by code_simp
  have n1: "\<forall>d. Decimal_of_amount (JStr ''-1.005'') = Some d \<longrightarrow> \<not> special d"
    by (simp add: d1)
  have m1: "rejected Deposit Negative ?st
      = (Inr (Response 400 (Error ''Amount cannot be negative'')), ?st)"
    by (simp add: rejected_def validation_message.simps)
  from validation_order [OF a b, of "JStr ''-1.005''" Deposit, THEN conjunct1, rule_format,
    OF conjI [OF f1 n1]]
  have h1: "handler Deposit ?st ''1234'' (amount_body (JStr ''-1.005''))
       = (Inr (Response 400 (Error ''Amount cannot be negative'')), ?st)"
    by (simp only: m1)
  have d2: "Decimal_of_amount (JStr ''0.000'') = Some (Finite False 0 (- 3))" by code_simp
  have f2: "first_failing (JStr ''0.000'') = Some Zero" by code_simp
  have n2: "\<forall>d. Decimal_of_amount (JStr ''0.000'') = Some d \<longrightarrow> \<not> special d"
    by (simp add: d2)
  have m2: "rejected Withdraw Zero ?st
      = (Inr (Response 400 (Error ''Amount must be greater than zero'')), ?st)"
    by (simp add: rejected_def validation_message.simps)
  from validation_order [OF a b, of "JStr ''0.000''" Withdraw, THEN conjunct1, rule_format,
    OF conjI [OF f2 n2]]
  have h2: "handler Withdraw ?st ''1234'' (amount_body (JStr ''0.000''))
       = (Inr (Response 400 (Error ''Amount must be greater than zero'')), ?st)"
    by (simp only: m2)
  have d3: "Decimal_of_amount (JStr ''abc'') = None" by code_simp
  have f3: "first_failing (JStr ''abc'') = Some NotNumeric" by code_simp
  have n3: "\<forall>d. Decimal_of_amount (JStr ''abc'') = Some d \<longrightarrow> \<not> special d"
    by (simp add: d3)
  have m3: "rejected Withdraw NotNumeric ?st
      = (Inr (Response 400 (Error
            ''Withdrawal failed - Amount must be numeric and have at most 2 decimal places'')),
         ?st)"
    by (simp add: rejected_def validation_message.simps)
  from validation_order [OF a b, of "JStr ''abc''" Withdraw, THEN conjunct1, rule_format,
    OF conjI [OF f3 n3]]
  have h3: "handler Withdraw ?st ''1234'' (amount_body (JStr ''abc''))
       = (Inr (Response 400 (Error
            ''Withdrawal failed - Amount must be numeric and have at most 2 decimal places'')),
          ?st)"
    by (simp only: m3)
  have f4: "first_failing (JStr ''12.50'') = None" by code_simp
  have h4: "handler Deposit ?st ''1234'' (amount_body (JStr ''12.50''))
       = (Inr (Response 200 (Balance (Fin (85 / 2)))), one_account (Fin (85 / 2)))"
    by code_simp
  have d5: "Decimal_of_amount (JStr ''NaN'') = Some (NaN False False)" by code_simp
  note t5 = validation_order [OF a b, of "JStr ''NaN''" Deposit, THEN conjunct2, THEN conjunct2,
    THEN conjunct2, THEN conjunct1, rule_format, OF d5]
  have d6: "Decimal_of_amount (JStr ''Infinity'') = Some (Infinity False)" by code_simp
  note t6 = validation_order [OF a b, of "JStr ''Infinity''" Withdraw, THEN conjunct2,
    THEN conjunct2, THEN conjunct2, THEN conjunct2, THEN conjunct1, rule_format, OF d6]
  have d7: "Decimal_of_amount (JStr ''-Infinity'') = Some (Infinity True)" by code_simp
  note t7 = validation_order [OF a b, of "JStr ''-Infinity''" Deposit, THEN conjunct2,
    THEN conjunct2, THEN conjunct2, THEN conjunct2, THEN conjunct2, rule_format, OF d7]
  from t7 have h7: "handler Deposit ?st ''1234'' (amount_body (JStr ''-Infinity''))
       = (Inr (Response 400 (Error ''Amount cannot be negative'')), ?st)"
    by (simp only: m1)
  from a b [of "JStr ''-1.005''"] d1 f1 h1 d2 f2 h2 d3 f3 h3 f4 h4
    d5 t5 [THEN conjunct1] t5 [THEN conjunct2]
    d6 t6 [THEN conjunct1] t6 [THEN conjunct2]
    d7 t7 [THEN conjunct1] h7
  show ?thesis by (intro conjI)
qed

section \<open>The order of the checks\<close>

lemma validation_message_not_insufficient:
  "validation_message opn k \<noteq> ''Insufficient balance''"
  by (cases opn; cases k) (simp_all add: validation_message.simps)

lemma missing_amount_not_insufficient: "missing_amount \<noteq> ''Insufficient balance''"
  by (simp add: missing_amount_def)

lemma reported_kind_404: "reported_kind opn (Response 404 b) = None"
  by (simp add: reported_kind_def rule_order_def)

lemma insufficient_only_valid:
  assumes "handler opn st n data = (Inr (Response 400 (Error ''Insufficient balance'')), st')"
  shows "find_account st n \<noteq> None \<and> (\<exists>raw. amount_of data = Some raw \<and> first_failing raw = None)"
proof (cases "find_account st n")
  case None
  with assms show ?thesis by (simp add: handler_no_account)
next
  case (Some a)
  show ?thesis
  proof (cases "amount_field data")
    case (Inl x)
    with assms Some show ?thesis by (simp add: handler_field_raises)
  next
    case (Inr f)
    show ?thesis
    proof (cases f)
      case None
      with assms Some Inr show ?thesis
        by (simp add: handler_no_field missing_amount_not_insufficient)
    next
      case (Some raw)
      with Inr have f: "amount_field data = Inr (Some raw)" by simp
      then have ao: "amount_of data = Some raw" by (rule amount_field_of)
      have "first_failing raw = None"
      proof (cases "Decimal_of_amount raw")
        case None
        with assms \<open>find_account st n = Some a\<close> f show ?thesis
          by (simp add: handler_not_numeric rejected_def validation_message_not_insufficient)
      next
        case (Some d)
        show ?thesis
        proof (cases d)
          case (Finite s c e)
          with Some have D: "Decimal_of_amount raw = Some (Finite s c e)" by simp
          from assms show ?thesis
            unfolding handler_Finite [OF \<open>find_account st n = Some a\<close> f D]
              first_failing_Finite [OF D] rejected_def
            by (simp add: validation_message_not_insufficient split: if_splits)
        next
          case (Infinity s)
          with Some have D: "Decimal_of_amount raw = Some (Infinity s)" by simp
          from assms show ?thesis
            unfolding handler_Infinity [OF \<open>find_account st n = Some a\<close> f D] rejected_def
            by (simp add: validation_message_not_insufficient split: if_splits)
        next
          case (NaN s g)
          with Some have D: "Decimal_of_amount raw = Some (NaN s g)" by simp
          from assms show ?thesis
            unfolding handler_NaN [OF \<open>find_account st n = Some a\<close> f D] by simp
        qed
      qed
      with ao \<open>find_account st n = Some a\<close> show ?thesis by simp
    qed
  qed
qed

text \<open>
  Claim C4. In a deposit and in a withdrawal the account is looked up first, the amount
  is validated next, and the balance is compared last: a request on an account that does
  not exist is answered 404 "Account not found" whatever its body holds, a validation
  error is reported only for an account that exists, and "Insufficient balance" is
  answered only when the account exists and the amount passes every validation rule.
\<close>

theorem checks_in_order:
  assumes "handler opn st n data = (out, st')"
  shows "(find_account st n = None \<longrightarrow>
            out = Inr (Response 404 (Error ''Account not found'')) \<and> st' = st)
       \<and> (\<forall>resp k. out = Inr resp \<and> reported_kind opn resp = Some k \<longrightarrow>
            find_account st n \<noteq> None)
       \<and> (out = Inr (Response 400 (Error ''Insufficient balance'')) \<longrightarrow>
            find_account st n \<noteq> None
            \<and> (\<exists>raw. amount_of data = Some raw \<and> first_failing raw = None))"
proof (intro conjI impI allI)
  assume "find_account st n = None"
  with assms show "out = Inr (Response 404 (Error ''Account not found''))" and "st' = st"
    by (simp_all add: handler_no_account)
next
  fix resp k
  assume "out = Inr resp \<and> reported_kind opn resp = Some k"
  then have o: "out = Inr resp" and k: "reported_kind opn resp = Some k" by simp_all
  show "find_account st n \<noteq> None"
  proof
    assume "find_account st n = None"
    from assms o have "resp = Response 404 (Error ''Account not found'')"
      unfolding handler_no_account [OF \<open>find_account st n = None\<close>] by simp
    with k show False by (simp add: reported_kind_404)
  qed
next
  assume "out = Inr (Response 400 (Error ''Insufficient balance''))"
  with assms have "handler opn st n data = (Inr (Response 400 (Error ''Insufficient balance'')), st')"
    by simp
  from insufficient_only_valid [OF this]
  show "find_account st n \<noteq> None"
    and "\<exists>raw. amount_of data = Some raw \<and> first_failing raw = None"
    by simp_all
qed

theorem checks_in_order_witness:
  "find_account (one_account (Fin 30)) ''0000'' = None
   \<and> first_failing (JStr ''abc'') = Some NotNumeric
   \<and> handler Deposit (one_account (Fin 30)) ''0000'' (amount_body (JStr ''abc''))
       = (Inr (Response 404 (Error ''Account not found'')), one_account (Fin 30))
   \<and> handler Withdraw (one_account (Fin 30)) ''1234'' (amount_body (JInt 1000))
       = (Inr (Response 400 (Error ''Insufficient balance'')), one_account (Fin 30))
   \<and> find_account (one_account (Fin 30)) ''1234'' \<noteq> None
   \<and> first_failing (JInt 1000) = None
   \<and> handler Deposit (one_account (Fin 30)) ''1234'' (amount_body (JStr ''abc''))
       = rejected Deposit NotNumeric (one_account (Fin 30))
   \<and> reported_kind Deposit (Response 400 (Error (validation_message Deposit NotNumeric)))
       = Some NotNumeric"
proof -
  have a: "find_account (one_account (Fin 30)) ''0000'' = None" by code_simp
  obtain out st' where h:
    "handler Deposit (one_account (Fin 30)) ''0000'' (amount_body (JStr ''abc'')) = (out, st')"
    by (cases "handler Deposit (one_account (Fin 30)) ''0000'' (amount_body (JStr ''abc''))")
  note t = checks_in_order [OF h, THEN conjunct1, rule_format, OF a]
  from t h have b: "handler Deposit (one_account (Fin 30)) ''0000'' (amount_body (JStr ''abc''))
       = (Inr (Response 404 (Error ''Account not found'')), one_account (Fin 30))"
    by (simp only:)
  have c: "first_failing (JStr ''abc'') = Some NotNumeric" by code_simp
  have d: "handler Withdraw (one_account (Fin 30)) ''1234'' (amount_body (JInt 1000))
       = (Inr (Response 400 (Error ''Insufficient balance'')), one_account (Fin 30))"
    by code_simp
  note u = checks_in_order [OF d, THEN conjunct2, THEN conjunct2, rule_format, OF refl]
  have e: "find_account (one_account (Fin 30)) ''1234'' \<noteq> None"
    by (rule u [THEN conjunct1])
  have f: "first_failing (JInt 1000) = None" by code_simp
  have g: "handler Deposit (one_account (Fin 30)) ''1234'' (amount_body (JStr ''abc''))
       = rejected Deposit NotNumeric (one_account (Fin 30))"
    by code_simp
  have k: "reported_kind Deposit (Response 400 (Error (validation_message Deposit NotNumeric)))
       = Some NotNumeric"
    by (rule reported_kind_rejected)
  from a c b d e f g k show ?thesis by (intro conjI)
qed

section \<open>Amounts that are not finite\<close>

text \<open>
  Claim C9. The texts NaN and Infinity are convertible to a Decimal, so the conversion
  under \<^verbatim>\<open>try\<close> succeeds; the comparison \<^verbatim>\<open>d < 0\<close> then raises InvalidOperation
  on the NaN, and the comparison of the exponent, which is the string \<^verbatim>\<open>'F'\<close>, with
  \<^verbatim>\<open>-2\<close> raises TypeError on the infinity. Neither is caught: the handler returns no
  response, neither the success nor one of the 400 errors.
\<close>

theorem special_amounts_raise:
  "Decimal_of_amount (JStr ''NaN'') = Some (NaN False False)
   \<and> handler Deposit (one_account (Fin 30)) ''1234'' (amount_body (JStr ''NaN''))
       = (Inl InvalidOperation, one_account (Fin 30))
   \<and> handler Withdraw (one_account (Fin 30)) ''1234'' (amount_body (JStr ''NaN''))
       = (Inl InvalidOperation, one_account (Fin 30))
   \<and> Decimal_of_amount (JStr ''Infinity'') = Some (Infinity False)
   \<and> handler Deposit (one_account (Fin 30)) ''1234'' (amount_body (JStr ''Infinity''))
       = (Inl TypeError, one_account (Fin 30))
   \<and> handler Withdraw (one_account (Fin 30)) ''1234'' (amount_body (JStr ''Infinity''))
       = (Inl TypeError, one_account (Fin 30))"
proof (intro conjI)
  show "Decimal_of_amount (JStr ''NaN'') = Some (NaN False False)"
    by code_simp
  show "handler Deposit (one_account (Fin 30)) ''1234'' (amount_body (JStr ''NaN''))
       = (Inl InvalidOperation, one_account (Fin 30))"
    by code_simp
  show "handler Withdraw (one_account (Fin 30)) ''1234'' (amount_body (JStr ''NaN''))
       = (Inl InvalidOperation, one_account (Fin 30))"
    by code_simp
  show "Decimal_of_amount (JStr ''Infinity'') = Some (Infinity False)"
    by code_simp
  show "handler Deposit (one_account (Fin 30)) ''1234'' (amount_body (JStr ''Infinity''))
       = (Inl TypeError, one_account (Fin 30))"
    by code_simp
  show "handler Withdraw (one_account (Fin 30)) ''1234'' (amount_body (JStr ''Infinity''))
       = (Inl TypeError, one_account (Fin 30))"
    by code_simp
qed

section \<open>The rule on decimal places\<close>

lemma cents_of_scale:
  assumes "- 2 \<le> e"
  shows "at_most_2_decimals (dec_val s c e)"
proof -
  have "(10::rat) powi e * 100 = 10 powi e * 10 powi 2" by simp
  also have "\<dots> = 10 powi (e + 2)" by (simp add: power_int_add)
  also have "\<dots> = of_int (10 ^ nat (e + 2))" using assms by (simp add: power_int_def)
  finally have "dec_val s c e * 100 = of_int ((if s then - 1 else 1) * c * 10 ^ nat (e + 2))"
    by (simp add: dec_val_def mult.assoc)
  then show ?thesis by (simp only: at_most_2_decimals_def floor_of_int)
qed

lemma not_too_many_decimals:
  assumes "find_account st n = Some a" and "amount_of data = Some raw"
    and "Decimal_of_amount raw = Some (Finite s c e)" and "- 2 \<le> e"
  shows "fst (handler opn st n data)
       \<noteq> Inr (Response 400 (Error (validation_message opn TooManyDecimals)))"
  using assms(4)
  unfolding handler_Finite [OF assms(1) amount_of_field [OF assms(2)] assms(3)] rejected_def
  by (cases opn) (auto simp: validation_message.simps)

lemma rejected_by_scale:
  assumes "find_account st n = Some a" and "amount_of data = Some raw"
    and "Decimal_of_amount raw = Some (Finite s c e)" and "e < - 2"
  shows "handler opn st n data =
    (if dec_val s c e < 0 then rejected opn Negative st
     else if dec_val s c e = 0 then rejected opn Zero st
     else rejected opn TooManyDecimals st)"
  using assms(4)
  unfolding handler_Finite [OF assms(1) amount_of_field [OF assms(2)] assms(3)]
  by simp

text \<open>
  Claim C6, as stated, fails in three places. The amount 1.000 has the value 1, with no
  digit after the decimal point, and validation fails on it with TooManyDecimals: the
  handler counts the digits of the amount as it is written. The amount -1.005 has three
  digits after the decimal point, and validation fails on it with Negative, not with
  TooManyDecimals: the sign is checked first. And the amount 12.3 is accepted, but what a
  deposit of it into an empty account stores is the float nearest to 12.3, which is not
  12.30.
\<close>

theorem decimals_counterexample:
  "Decimal_of_amount (JStr ''1.000'') = Some (Finite False 1000 (- 3))
   \<and> dec_val False 1000 (- 3) = 1
   \<and> at_most_2_decimals (dec_val False 1000 (- 3))
   \<and> handler Deposit (one_account (Fin 0)) ''1234'' (amount_body (JStr ''1.000''))
       = (Inr (Response 400 (Error
            ''Deposit failed - Amount must have at most 2 decimal places'')),
          one_account (Fin 0))
   \<and> Decimal_of_amount (JStr ''-1.005'') = Some (Finite True 1005 (- 3))
   \<and> \<not> at_most_2_decimals (dec_val True 1005 (- 3))
   \<and> handler Deposit (one_account (Fin 0)) ''1234'' (amount_body (JStr ''-1.005''))
       = (Inr (Response 400 (Error ''Amount cannot be negative'')), one_account (Fin 0))
   \<and> ''Amount cannot be negative''
       \<noteq> ''Deposit failed - Amount must have at most 2 decimal places''
   \<and> handler Deposit (one_account (Fin 0)) ''1234'' (amount_body (JStr ''12.3''))
       = (Inr (Response 200 (Balance (Fin (3462142213541069 / 281474976710656)))),
          one_account (Fin (3462142213541069 / 281474976710656)))
   \<and> (3462142213541069 / 281474976710656 :: rat) \<noteq> 1230 / 100"
proof (intro conjI)
  show "Decimal_of_amount (JStr ''1.000'') = Some (Finite False 1000 (- 3))" by code_simp
  show "dec_val False 1000 (- 3) = 1" by code_simp
  show "at_most_2_decimals (dec_val False 1000 (- 3))" by code_simp
  show "handler Deposit (one_account (Fin 0)) ''1234'' (amount_body (JStr ''1.000''))
       = (Inr (Response 400 (Error
            ''Deposit failed - Amount must have at most 2 decimal places'')),
          one_account (Fin 0))"
    by code_simp
  show "Decimal_of_amount (JStr ''-1.005'') = Some (Finite True 1005 (- 3))" by code_simp
  show "\<not> at_most_2_decimals (dec_val True 1005 (- 3))" by code_simp
  show "handler Deposit (one_account (Fin 0)) ''1234'' (amount_body (JStr ''-1.005''))
       = (Inr (Response 400 (Error ''Amount cannot be negative'')), one_account (Fin 0))"
    by code_simp
  show "''Amount cannot be negative''
       \<noteq> ''Deposit failed - Amount must have at most 2 decimal places''"
    by simp
  show "handler Deposit (one_account (Fin 0)) ''1234'' (amount_body (JStr ''12.3''))
       = (Inr (Response 200 (Balance (Fin (3462142213541069 / 281474976710656)))),
          one_account (Fin (3462142213541069 / 281474976710656)))"
    by code_simp
  show "(3462142213541069 / 281474976710656 :: rat) \<noteq> 1230 / 100" by simp
qed

text \<open>
  Claim C6, amended. On an existing account, for every amount that reads as a finite
  Decimal: if it is written with at most 2 digits after the decimal point, validation
  does not fail with TooManyDecimals, and if it is also positive and at most 99999999 it
  passes every rule (12.3 does), a deposit adding the float nearest to it to the balance;
  if it is written with 3 or more digits after the decimal point (1.005, and 1.000 as
  well), validation fails with TooManyDecimals when the amount is positive, with Negative
  when it is negative and with Zero when it is zero, these rules being checked first.
  Every amount whose value has more than 2 digits after the decimal point is written
  with at least 3.
\<close>

theorem decimals_rule:
  assumes "find_account st n = Some a" and "amount_of data = Some raw"
    and "Decimal_of_amount raw = Some (Finite s c e)"
  shows "(fraction_digits (Finite s c e) \<le> 2 \<longrightarrow>
            fst (handler opn st n data)
              \<noteq> Inr (Response 400 (Error (validation_message opn TooManyDecimals))))
       \<and> (fraction_digits (Finite s c e) \<le> 2 \<and> 0 < dec_val s c e \<and> dec_val s c e \<le> 99999999 \<longrightarrow>
            first_failing raw = None
            \<and> handler Deposit st n data
                = (Inr (Response 200 (Balance (fadd (balance a) (round64 (dec_val s c e))))),
                   set_balance st a (fadd (balance a) (round64 (dec_val s c e)))))
       \<and> (3 \<le> fraction_digits (Finite s c e) \<and> 0 < dec_val s c e \<longrightarrow>
            handler opn st n data = rejected opn TooManyDecimals st)
       \<and> (3 \<le> fraction_digits (Finite s c e) \<and> dec_val s c e < 0 \<longrightarrow>
            handler opn st n data = rejected opn Negative st)
       \<and> (3 \<le> fraction_digits (Finite s c e) \<and> dec_val s c e = 0 \<longrightarrow>
            handler opn st n data = rejected opn Zero st)
       \<and> (\<not> at_most_2_decimals (dec_val s c e) \<longrightarrow> 3 \<le> fraction_digits (Finite s c e))"
proof (intro conjI impI)
  assume "fraction_digits (Finite s c e) \<le> 2"
  then have "- 2 \<le> e" by simp
  then show "fst (handler opn st n data)
              \<noteq> Inr (Response 400 (Error (validation_message opn TooManyDecimals)))"
    by (rule not_too_many_decimals [OF assms])
next
  assume p: "fraction_digits (Finite s c e) \<le> 2 \<and> 0 < dec_val s c e \<and> dec_val s c e \<le> 99999999"
  then have e: "- 2 \<le> e" by auto
  from p e show "first_failing raw = None"
    by (simp add: first_failing_Finite [OF assms(3)])
  from p e handler_Finite [OF assms(1) amount_of_field [OF assms(2)] assms(3), of Deposit]
  show "handler Deposit st n data
                = (Inr (Response 200 (Balance (fadd (balance a) (round64 (dec_val s c e))))),
                   set_balance st a (fadd (balance a) (round64 (dec_val s c e))))"
    by simp
next
  assume "3 \<le> fraction_digits (Finite s c e) \<and> 0 < dec_val s c e"
  then have "e < - 2" "\<not> dec_val s c e < 0" "dec_val s c e \<noteq> 0" by auto
  then show "handler opn st n data = rejected opn TooManyDecimals st"
    by (simp add: rejected_by_scale [OF assms])
next
  assume "3 \<le> fraction_digits (Finite s c e) \<and> dec_val s c e < 0"
  then have "e < - 2" "dec_val s c e < 0" by auto
  then show "handler opn st n data = rejected opn Negative st"
    by (simp add: rejected_by_scale [OF assms])
next
  assume "3 \<le> fraction_digits (Finite s c e) \<and> dec_val s c e = 0"
  then have "e < - 2" "dec_val s c e = 0" by auto
  then show "handler opn st n data = rejected opn Zero st"
    by (simp add: rejected_by_scale [OF assms])
next
  assume n: "\<not> at_most_2_decimals (dec_val s c e)"
  have "e < - 2"
  proof (rule ccontr)
    assume "\<not> e < - 2"
    then have "- 2 \<le> e" by simp
    from cents_of_scale [OF this] n show False by simp
  qed
  then show "3 \<le> fraction_digits (Finite s c e)" by simp
qed

theorem decimals_rule_witness:
  "find_account (one_account (Fin 0)) ''1234''
     = Some \<lparr>id_pk = 1, account_number = ''1234'', balance = Fin 0\<rparr>
   \<and> amount_of (amount_body (JStr ''12.3'')) = Some (JStr ''12.3'')
   \<and> Decimal_of_amount (JStr ''12.3'') = Some (Finite False 123 (- 1))
   \<and> fraction_digits (Finite False 123 (- 1)) \<le> 2
   \<and> 0 < dec_val False 123 (- 1) \<and> dec_val False 123 (- 1) \<le> 99999999
   \<and> fst (handler Deposit (one_account (Fin 0)) ''1234'' (amount_body (JStr ''12.3'')))
       \<noteq> Inr (Response 400 (Error (validation_message Deposit TooManyDecimals)))
   \<and> first_failing (JStr ''12.3'') = None
   \<and> handler Deposit (one_account (Fin 0)) ''1234'' (amount_body (JStr ''12.3''))
       = (Inr (Response 200 (Balance (Fin (3462142213541069 / 281474976710656)))),
          one_account (Fin (3462142213541069 / 281474976710656)))
   \<and> Decimal_of_amount (JStr ''1.005'') = Some (Finite False 1005 (- 3))
   \<and> 3 \<le> fraction_digits (Finite False 1005 (- 3)) \<and> 0 < dec_val False 1005 (- 3)
   \<and> handler Withdraw (one_account (Fin 0)) ''1234'' (amount_body (JStr ''1.005''))
       = (Inr (Response 400 (Error
            ''Withdrawal failed - Amount must have at most 2 decimal places'')),
          one_account (Fin 0))
   \<and> Decimal_of_amount (JStr ''-1.005'') = Some (Finite True 1005 (- 3))
   \<and> 3 \<le> fraction_digits (Finite True 1005 (- 3)) \<and> dec_val True 1005 (- 3) < 0
   \<and> handler Deposit (one_account (Fin 0)) ''1234'' (amount_body (JStr ''-1.005''))
       = (Inr (Response 400 (Error ''Amount cannot be negative'')), one_account (Fin 0))
   \<and> Decimal_of_amount (JStr ''0.000'') = Some (Finite False 0 (- 3))
   \<and> 3 \<le> fraction_digits (Finite False 0 (- 3)) \<and> dec_val False 0 (- 3) = 0
   \<and> handler Withdraw (one_account (Fin 0)) ''1234'' (amount_body (JStr ''0.000''))
       = (Inr (Response 400 (Error ''Amount must be greater than zero'')), one_account (Fin 0))
   \<and> \<not> at_most_2_decimals (dec_val False 1005 (- 3))"
proof -
  let ?st = "one_account (Fin 0)"
  let ?a = "\<lparr>id_pk = 1, account_number = ''1234'', balance = Fin 0\<rparr>"
  have a: "find_account ?st ''1234'' = Some ?a" by code_simp
  have b: "amount_of (amount_body v) = Some v" for v by (simp add: amount_body_def)
  have d1: "Decimal_of_amount (JStr ''12.3'') = Some (Finite False 123 (- 1))" by code_simp
  have s1: "fraction_digits (Finite False 123 (- 1)) \<le> 2" by simp
  have p1: "0 < dec_val False 123 (- 1)" by code_simp
  have q1: "dec_val False 123 (- 1) \<le> 99999999" by code_simp
  note t1 = decimals_rule [OF a b d1, of Deposit, THEN conjunct1, rule_format, OF s1]
  note u1 = decimals_rule [OF a b d1, of Deposit, THEN conjunct2, THEN conjunct1, rule_format,
    OF conjI [OF s1 conjI [OF p1 q1]]]
  have v1: "fadd (balance ?a) (round64 (dec_val False 123 (- 1)))
      = Fin (3462142213541069 / 281474976710656)"
    by code_simp
  have w1: "set_balance ?st ?a (Fin (3462142213541069 / 281474976710656))
      = one_account (Fin (3462142213541069 / 281474976710656))"
    by code_simp
  from u1 [THEN conjunct2]
  have h1: "handler Deposit ?st ''1234'' (amount_body (JStr ''12.3''))
       = (Inr (Response 200 (Balance (Fin (3462142213541069 / 281474976710656)))),
          one_account (Fin (3462142213541069 / 281474976710656)))"
    by (simp only: v1 w1)
  have d2: "Decimal_of_amount (JStr ''1.005'') = Some (Finite False 1005 (- 3))" by code_simp
  have s2: "3 \<le> fraction_digits (Finite False 1005 (- 3))" by simp
  have p2: "0 < dec_val False 1005 (- 3)" by code_simp
  have m2: "rejected Withdraw TooManyDecimals ?st
      = (Inr (Response 400 (Error
            ''Withdrawal failed - Amount must have at most 2 decimal places'')), ?st)"
    by (simp add: rejected_def validation_message.simps)
  from decimals_rule [OF a b d2, of Withdraw, THEN conjunct2, THEN conjunct2, THEN conjunct1,
    rule_format, OF conjI [OF s2 p2]]
  have h2: "handler Withdraw ?st ''1234'' (amount_body (JStr ''1.005''))
       = (Inr (Response 400 (Error
            ''Withdrawal failed - Amount must have at most 2 decimal places'')), ?st)"
    by (simp only: m2)
  have d3: "Decimal_of_amount (JStr ''-1.005'') = Some (Finite True 1005 (- 3))" by code_simp
  have s3: "3 \<le> fraction_digits (Finite True 1005 (- 3))" by simp
  have p3: "dec_val True 1005 (- 3) < 0" by code_simp
  have m3: "rejected Deposit Negative ?st
      = (Inr (Response 400 (Error ''Amount cannot be negative'')), ?st)"
    by (simp add: rejected_def validation_message.simps)
  from decimals_rule [OF a b d3, of Deposit, THEN conjunct2, THEN conjunct2, THEN conjunct2,
    THEN conjunct1, rule_format, OF conjI [OF s3 p3]]
  have h3: "handler Deposit ?st ''1234'' (amount_body (JStr ''-1.005''))
       = (Inr (Response 400 (Error ''Amount cannot be negative'')), ?st)"
    by (simp only: m3)
  have d4: "Decimal_of_amount (JStr ''0.000'') = Some (Finite False 0 (- 3))" by code_simp
  have s4: "3 \<le> fraction_digits (Finite False 0 (- 3))" by simp
  have p4: "dec_val False 0 (- 3) = 0" by code_simp
  have m4: "rejected Withdraw Zero ?st
      = (Inr (Response 400 (Error ''Amount must be greater than zero'')), ?st)"
    by (simp add: rejected_def validation_message.simps)
  from decimals_rule [OF a b d4, of Withdraw, THEN conjunct2, THEN conjunct2, THEN conjunct2,
    THEN conjunct2, THEN conjunct1, rule_format, OF conjI [OF s4 p4]]
  have h4: "handler Withdraw ?st ''1234'' (amount_body (JStr ''0.000''))
       = (Inr (Response 400 (Error ''Amount must be greater than zero'')), ?st)"
    by (simp only: m4)
  have n5: "\<not> at_most_2_decimals (dec_val False 1005 (- 3))" by code_simp
  from a b [of "JStr ''12.3''"] d1 s1 p1 q1 t1 u1 [THEN conjunct1] h1 d2 s2 p2 h2 d3 s3 p3 h3
    d4 s4 p4 h4 n5
  show ?thesis by (intro conjI)
qed

section \<open>Account numbers\<close>

lemma digits_of_not_empty: "digits_of n \<noteq> []"
  by (subst digits_of.simps) simp

lemma str_int_not_empty: "str_int r \<noteq> []"
  by (simp add: str_int_def digits_of_not_empty)

lemma create_account_cases:
  assumes "create_account r st data = Some (out, st')"
  shows "(out = Inr (Response 400 (Error ''Invalid or missing JSON payload'')) \<and> st' = st)
       \<or> (\<exists>e. out = Inl e \<and> e \<noteq> IntegrityError \<and> st' = st)
       \<or> (str_int r \<in> set (map account_number (accounts st))
            \<and> out = Inl IntegrityError \<and> st' = st\<lparr>next_id := next_id st + 1\<rparr>)
       \<or> (\<exists>b. str_int r \<notin> set (map account_number (accounts st))
            \<and> out = Inr (Response 201 (Created (str_int r) b))
            \<and> st' = st\<lparr>accounts := accounts st
                   @ [\<lparr>id_pk = next_id st, account_number = str_int r, balance = b\<rparr>],
                 next_id := next_id st + 1\<rparr>)"
proof (cases "is_None data")
  case True
  with assms show ?thesis by (simp add: create_account_def)
next
  case False
  show ?thesis
  proof (cases "balance_field data")
    case (Inl e)
    then have "e = AttributeError" by (cases data) (simp_all split: option.splits)
    with assms False Inl show ?thesis by (auto simp add: create_account_def)
  next
    case (Inr ob)
    show ?thesis
    proof (cases ob)
      case None
      with assms False Inr show ?thesis by (simp add: create_account_def)
    next
      case (Some b)
      with assms False Inr show ?thesis
        by (auto simp: create_account_def insert_account_def Let_def split: if_splits)
    qed
  qed
qed

lemma create_account_unique:
  assumes "distinct (map account_number (accounts st))"
    and "create_account r st data = Some (out, st')"
  shows "distinct (map account_number (accounts st'))
       \<and> (\<forall>code num b. out = Inr (Response code (Created num b)) \<longrightarrow>
            num = str_int r \<and> num \<noteq> []
            \<and> num \<notin> set (map account_number (accounts st))
            \<and> accounts st'
                = accounts st @ [\<lparr>id_pk = next_id st, account_number = num, balance = b\<rparr>])
       \<and> (str_int r \<in> set (map account_number (accounts st)) \<longrightarrow>
            accounts st' = accounts st
            \<and> (\<forall>code num b. out \<noteq> Inr (Response code (Created num b))))"
  using create_account_cases [OF assms(2)] assms(1)
  by (auto simp: str_int_not_empty)

text \<open>
  Claim C7. In a table whose account numbers are distinct, every account that
  \<open>create_account\<close> creates gets the number the system drew (the text of the random
  integer, never empty and never read from the request), a number that no account of the
  table has; the numbers stay distinct. The unique constraint of models.py checks the
  number against the table when the row is inserted, before the commit completes: when
  the number drawn is already taken no account is created and no row is added
  (IntegrityError).
\<close>

theorem created_number_unique:
  assumes "distinct (map account_number (accounts st))"
    and "create_account r st data = Some (out, st')"
  shows "distinct (map account_number (accounts st'))
       \<and> (\<forall>code num b. out = Inr (Response code (Created num b)) \<longrightarrow>
            num = str_int r \<and> num \<noteq> []
            \<and> num \<notin> set (map account_number (accounts st))
            \<and> accounts st'
                = accounts st @ [\<lparr>id_pk = next_id st, account_number = num, balance = b\<rparr>])
       \<and> (str_int r \<in> set (map account_number (accounts st)) \<longrightarrow>
            accounts st' = accounts st
            \<and> (\<forall>code num b. out \<noteq> Inr (Response code (Created num b))))"
  using assms by (rule create_account_unique)

theorem created_number_unique_witness:
  "distinct (map account_number (accounts (one_account (Fin 30))))
   \<and> create_account 5678 (one_account (Fin 30)) (JObj Map.empty)
       = Some (Inr (Response 201 (Created ''5678'' (Fin 0))),
           \<lparr>accounts = [\<lparr>id_pk = 1, account_number = ''1234'', balance = Fin 30\<rparr>,
                        \<lparr>id_pk = 2, account_number = ''5678'', balance = Fin 0\<rparr>],
            next_id = 3\<rparr>)
   \<and> distinct (map account_number (accounts
         \<lparr>accounts = [\<lparr>id_pk = 1, account_number = ''1234'', balance = Fin 30\<rparr>,
                      \<lparr>id_pk = 2, account_number = ''5678'', balance = Fin 0\<rparr>],
          next_id = 3\<rparr>))
   \<and> create_account 1234 (one_account (Fin 30)) (JObj Map.empty)
       = Some (Inl IntegrityError, (one_account (Fin 30))\<lparr>next_id := 3\<rparr>)"
proof -
  have d: "distinct (map account_number (accounts (one_account (Fin 30))))"
    by code_simp
  have h: "create_account 5678 (one_account (Fin 30)) (JObj Map.empty)
       = Some (Inr (Response 201 (Created ''5678'' (Fin 0))),
           \<lparr>accounts = [\<lparr>id_pk = 1, account_number = ''1234'', balance = Fin 30\<rparr>,
                        \<lparr>id_pk = 2, account_number = ''5678'', balance = Fin 0\<rparr>],
            next_id = 3\<rparr>)"
    by code_simp
  note n = created_number_unique [OF d h, THEN conjunct1]
  have c: "create_account 1234 (one_account (Fin 30)) (JObj Map.empty)
       = Some (Inl IntegrityError, (one_account (Fin 30))\<lparr>next_id := 3\<rparr>)"
    by code_simp
  from d h n c show ?thesis by (intro conjI)
qed

section \<open>What a deposit or a withdrawal leaves unchanged\<close>

lemma find_account_Some:
  "find_account st n = Some a \<Longrightarrow>
   \<exists>j < length (accounts st). accounts st ! j = a \<and> account_number a = n"
  by (auto simp: find_account_def find_Some_iff)

lemma set_balance_frame:
  assumes "distinct (map id_pk (accounts st))" and "find_account st n = Some a"
  shows "next_id (set_balance st a b) = next_id st
       \<and> map id_pk (accounts (set_balance st a b)) = map id_pk (accounts st)
       \<and> map account_number (accounts (set_balance st a b)) = map account_number (accounts st)
       \<and> (\<forall>i < length (accounts st). account_number (accounts st ! i) \<noteq> n \<longrightarrow>
            accounts (set_balance st a b) ! i = accounts st ! i)"
proof -
  from find_account_Some [OF assms(2)] obtain j where
    j: "j < length (accounts st)" "accounts st ! j = a" "account_number a = n" by blast
  have other: "accounts (set_balance st a b) ! i = accounts st ! i"
    if i: "i < length (accounts st)" and ne: "account_number (accounts st ! i) \<noteq> n" for i
  proof -
    have "id_pk (accounts st ! i) \<noteq> id_pk a"
    proof
      assume "id_pk (accounts st ! i) = id_pk a"
      with i j assms(1) nth_eq_iff_index_eq [of "map id_pk (accounts st)" i j]
      have "i = j" by simp
      with j ne show False by simp
    qed
    with i show ?thesis by (simp add: set_balance_def)
  qed
  have ids: "map id_pk (accounts (set_balance st a b)) = map id_pk (accounts st)"
    by (simp add: set_balance_def comp_def if_distrib [of id_pk] cong: if_cong)
  have nums: "map account_number (accounts (set_balance st a b)) = map account_number (accounts st)"
    by (simp add: set_balance_def comp_def if_distrib [of account_number] cong: if_cong)
  have "next_id (set_balance st a b) = next_id st" by (simp add: set_balance_def)
  with ids nums other show ?thesis by blast
qed

lemma handler_table:
  assumes "handler opn st n data = (out, st')"
  shows "st' = st \<or> (\<exists>a b. find_account st n = Some a \<and> st' = set_balance st a b)"
proof (cases "find_account st n")
  case None
  with assms show ?thesis by (simp add: handler_no_account)
next
  case (Some a)
  show ?thesis
  proof (cases "amount_field data")
    case (Inl x)
    with assms Some show ?thesis by (simp add: handler_field_raises)
  next
    case (Inr f)
    show ?thesis
    proof (cases f)
      case None
      with assms Some Inr show ?thesis by (simp add: handler_no_field)
    next
      case (Some raw)
      with Inr have f: "amount_field data = Inr (Some raw)" by simp
      note acc = \<open>find_account st n = Some a\<close>
      show ?thesis
      proof (cases "Decimal_of_amount raw")
        case None
        with assms acc f show ?thesis by (simp add: handler_not_numeric rejected_def)
      next
        case (Some d)
        show ?thesis
        proof (cases d)
          case (Finite s c e)
          with Some have D: "Decimal_of_amount raw = Some (Finite s c e)" by simp
          from assms acc show ?thesis
            unfolding handler_Finite [OF acc f D] rejected_def
            by (auto split: if_splits)
        next
          case (Infinity s)
          with Some have D: "Decimal_of_amount raw = Some (Infinity s)" by simp
          from assms show ?thesis
            unfolding handler_Infinity [OF acc f D] rejected_def
            by (auto split: if_splits)
        next
          case (NaN s g)
          with Some have D: "Decimal_of_amount raw = Some (NaN s g)" by simp
          from assms show ?thesis
            unfolding handler_NaN [OF acc f D] by simp
        qed
      qed
    qed
  qed
qed

lemma handler_frame:
  assumes "distinct (map id_pk (accounts st))" and "handler opn st n data = (out, st')"
  shows "next_id st' = next_id st
       \<and> map id_pk (accounts st') = map id_pk (accounts st)
       \<and> map account_number (accounts st') = map account_number (accounts st)
       \<and> (\<forall>i < length (accounts st). account_number (accounts st ! i) \<noteq> n \<longrightarrow>
            accounts st' ! i = accounts st ! i)"
  using handler_table [OF assms(2)] set_balance_frame [OF assms(1)]
  by auto

text \<open>
  Claim C10. In a table whose ids are distinct (the primary key), a deposit or a
  withdrawal on account N, whatever its outcome, leaves the id and the account number of
  every row as they were, adds and removes no row, and leaves every row of another
  account exactly as it was: at most the balance of account N changes.
\<close>

theorem only_balance_changes:
  assumes "distinct (map id_pk (accounts st))" and "handler opn st n data = (out, st')"
  shows "next_id st' = next_id st
       \<and> map id_pk (accounts st') = map id_pk (accounts st)
       \<and> map account_number (accounts st') = map account_number (accounts st)
       \<and> (\<forall>i < length (accounts st). account_number (accounts st ! i) \<noteq> n \<longrightarrow>
            accounts st' ! i = accounts st ! i)"
  using assms by (rule handler_frame)

theorem only_balance_changes_witness:
  "distinct (map id_pk (accounts two_accounts))
   \<and> handler Deposit two_accounts ''1234'' (amount_body (JInt 5))
       = (Inr (Response 200 (Balance (Fin 35))),
          \<lparr>accounts = [\<lparr>id_pk = 1, account_number = ''1234'', balance = Fin 35\<rparr>,
                       \<lparr>id_pk = 2, account_number = ''5678'', balance = Fin 7\<rparr>],
           next_id = 3\<rparr>)
   \<and> map id_pk (accounts
         \<lparr>accounts = [\<lparr>id_pk = 1, account_number = ''1234'', balance = Fin 35\<rparr>,
                      \<lparr>id_pk = 2, account_number = ''5678'', balance = Fin 7\<rparr>],
          next_id = 3\<rparr>) = map id_pk (accounts two_accounts)
   \<and> account_number (accounts two_accounts ! 1) \<noteq> ''1234''
   \<and> accounts
         \<lparr>accounts = [\<lparr>id_pk = 1, account_number = ''1234'', balance = Fin 35\<rparr>,
                      \<lparr>id_pk = 2, account_number = ''5678'', balance = Fin 7\<rparr>],
          next_id = 3\<rparr> ! 1 = accounts two_accounts ! 1"
proof -
  have d: "distinct (map id_pk (accounts two_accounts))"
    by code_simp
  have h: "handler Deposit two_accounts ''1234'' (amount_body (JInt 5))
       = (Inr (Response 200 (Balance (Fin 35))),
          \<lparr>accounts = [\<lparr>id_pk = 1, account_number = ''1234'', balance = Fin 35\<rparr>,
                       \<lparr>id_pk = 2, account_number = ''5678'', balance = Fin 7\<rparr>],
           next_id = 3\<rparr>)"
    by code_simp
  note f = only_balance_changes [OF d h, THEN conjunct2, THEN conjunct1]
  have l: "1 < length (accounts two_accounts)" by code_simp
  have o: "account_number (accounts two_accounts ! 1) \<noteq> ''1234''" by code_simp
  note u = only_balance_changes [OF d h, THEN conjunct2, THEN conjunct2, THEN conjunct2,
    rule_format, OF l o]
  from d h f o u show ?thesis by (intro conjI)
qed

section \<open>Rounding to the nearest float\<close>

text \<open>
  What the proofs need of \<open>round64\<close>: the result is never NaN and has the sign of
  the argument; up to \<open>2 ^ 1023\<close> it is finite and within half a unit in the last place
  of the argument; and a positive number that is at most a float rounds to at most that
  float.
\<close>

lemma round_half_even_bounds:
  "of_int (round_half_even t) \<le> t + 1 / 2" "t - 1 / 2 \<le> of_int (round_half_even t)"
proof -
  have f: "of_int \<lfloor>t\<rfloor> \<le> t" "t < of_int \<lfloor>t\<rfloor> + 1" by linarith+
  show "of_int (round_half_even t) \<le> t + 1 / 2"
    using f by (auto simp: round_half_even_def Let_def; linarith)
  show "t - 1 / 2 \<le> of_int (round_half_even t)"
    using f by (auto simp: round_half_even_def Let_def; linarith)
qed

lemma round_half_even_nonneg: "0 \<le> t \<Longrightarrow> 0 \<le> round_half_even t"
  by (auto simp: round_half_even_def Let_def)

lemma round_half_even_of_int [simp]: "round_half_even (of_int k) = k"
  by (simp add: round_half_even_def)

lemma two_powi_pos [simp]: "0 < (2::rat) powi k"
  by (simp add: power_int_def)

lemma quotient_of_pos:
  assumes "0 < a"
  shows "0 < fst (quotient_of a)" "0 < snd (quotient_of a)"
    "a = of_int (fst (quotient_of a)) / of_int (snd (quotient_of a))"
proof -
  obtain n d where q: "quotient_of a = (n, d)" by (cases "quotient_of a")
  from quotient_of_denom_pos [OF q] have d: "0 < d" .
  from quotient_of_div [OF q] have a: "a = of_int n / of_int d" .
  with assms d have "0 < n" by (simp add: zero_less_divide_iff)
  with d a q show "0 < fst (quotient_of a)" "0 < snd (quotient_of a)"
    "a = of_int (fst (quotient_of a)) / of_int (snd (quotient_of a))" by simp_all
qed

lemma bitlen_powi_bounds:
  assumes "0 < x"
  shows "(2::rat) powi (bitlen x - 1) \<le> of_int x" "of_int x < (2::rat) powi (bitlen x)"
proof -
  from bitlen_bounds [OF assms]
  have b: "2 ^ nat (bitlen x - 1) \<le> x" "x < 2 ^ nat (bitlen x)" by simp_all
  from assms have b1: "1 \<le> bitlen x" by (auto simp: bitlen_alt_def)
  have "(2::rat) powi (bitlen x - 1) = 2 ^ nat (bitlen x - 1)"
    using b1 by (simp add: power_int_def)
  also have "\<dots> = of_int (2 ^ nat (bitlen x - 1))" by simp
  also have "\<dots> \<le> of_int x" using b(1) by (simp only: of_int_le_iff)
  finally show "(2::rat) powi (bitlen x - 1) \<le> of_int x" .
  have "of_int x < (of_int (2 ^ nat (bitlen x)) :: rat)" using b(2) by (simp only: of_int_less_iff)
  also have "\<dots> = 2 powi (bitlen x)" using b1 by (simp add: power_int_def)
  finally show "of_int x < (2::rat) powi (bitlen x)" .
qed

lemma ilog2_bounds:
  assumes "0 < a"
  shows "2 powi (ilog2 a) \<le> a" "a < 2 powi (ilog2 a + 1)"
proof -
  define n where "n = fst (quotient_of a)"
  define d where "d = snd (quotient_of a)"
  define k where "k = bitlen n - bitlen d"
  from quotient_of_pos [OF assms] have n: "0 < n" and d: "0 < d"
    and a: "a = of_int n / of_int d" by (simp_all add: n_def d_def)
  note bn = bitlen_powi_bounds [OF n]
  note bd = bitlen_powi_bounds [OF d]
  have dpos: "0 < (of_int d :: rat)" using d by simp
  have lo: "2 powi (k - 1) \<le> a"
  proof -
    have "(2::rat) powi (k - 1) = 2 powi (bitlen n - 1) / 2 powi (bitlen d)"
      by (simp add: k_def power_int_diff)
    also have "\<dots> \<le> of_int n / 2 powi (bitlen d)"
      using bn(1) by (simp add: divide_right_mono)
    also have "\<dots> \<le> of_int n / of_int d"
      using bd(2) n dpos by (intro divide_left_mono) (simp_all add: less_imp_le)
    finally show ?thesis by (simp add: a)
  qed
  have hi: "a < 2 powi (k + 1)"
  proof -
    have "a = of_int n / of_int d" by (rule a)
    also have "\<dots> < 2 powi (bitlen n) / of_int d"
      using bn(2) dpos by (simp add: divide_strict_right_mono)
    also have "\<dots> \<le> 2 powi (bitlen n) / 2 powi (bitlen d - 1)"
      using bd(1) dpos by (intro divide_left_mono) (simp_all add: less_imp_le mult_pos_pos)
    also have "\<dots> = 2 powi (k + 1)"
      by (simp add: k_def power_int_diff power_int_add)
    finally show ?thesis .
  qed
  have il: "ilog2 a = (if 2 powi k \<le> a then k else k - 1)"
    by (simp add: ilog2_def Let_def k_def n_def d_def)
  show "2 powi (ilog2 a) \<le> a" using lo by (simp add: il)
  show "a < 2 powi (ilog2 a + 1)" using hi by (auto simp: il)
qed

lemma round64_not_Nan [simp]: "round64 q \<noteq> Nan"
  by (simp add: round64_def Let_def)

lemma round64_zero [simp]: "round64 0 = Fin 0"
  by (simp add: round64_def)

lemma round64_nonzero:
  fixes q :: rat
  defines "p \<equiv> max (ilog2 \<bar>q\<bar> - 52) (- 1074)"
  defines "r \<equiv> of_int (round_half_even (\<bar>q\<bar> / 2 powi p)) * 2 powi p"
  assumes "q \<noteq> 0"
  shows "round64 q = (if 2 ^ 1024 \<le> r then Inf (q < 0) else Fin (if q < 0 then - r else r))"
    and "0 \<le> r"
    and "\<bar>r - \<bar>q\<bar>\<bar> \<le> 2 powi p / 2"
    and "2 powi p \<le> max (\<bar>q\<bar> / 2 ^ 52) (1 / 2 ^ 1074)"
proof -
  let ?t = "\<bar>q\<bar> / 2 powi p"
  let ?m = "round_half_even ?t"
  have pp: "0 < (2::rat) powi p" by simp
  show "round64 q = (if 2 ^ 1024 \<le> r then Inf (q < 0) else Fin (if q < 0 then - r else r))"
    using assms(3) by (simp add: round64_def Let_def p_def r_def)
  have "0 \<le> ?t" by simp
  then have "0 \<le> ?m" by (rule round_half_even_nonneg)
  then show "0 \<le> r" by (simp add: r_def)
  have "\<bar>of_int ?m - ?t\<bar> \<le> 1 / 2"
    using round_half_even_bounds [of ?t] by linarith
  then have "\<bar>of_int ?m - ?t\<bar> * 2 powi p \<le> 1 / 2 * 2 powi p"
    using pp by (intro mult_right_mono) simp_all
  moreover have "\<bar>of_int ?m - ?t\<bar> * 2 powi p = \<bar>r - \<bar>q\<bar>\<bar>"
  proof -
    have "\<bar>of_int ?m - ?t\<bar> * 2 powi p = \<bar>(of_int ?m - ?t) * 2 powi p\<bar>"
      using pp by (simp add: abs_mult)
    also have "(of_int ?m - ?t) * 2 powi p = r - \<bar>q\<bar>"
      using pp by (simp add: r_def left_diff_distrib)
    finally show ?thesis .
  qed
  ultimately show "\<bar>r - \<bar>q\<bar>\<bar> \<le> 2 powi p / 2" by simp
  from assms(3) have a: "0 < \<bar>q\<bar>" by simp
  show "2 powi p \<le> max (\<bar>q\<bar> / 2 ^ 52) (1 / 2 ^ 1074)"
  proof (cases "- 1074 \<le> ilog2 \<bar>q\<bar> - 52")
    case True
    then have "p = ilog2 \<bar>q\<bar> - 52" by (simp add: p_def)
    then have "(2::rat) powi p = 2 powi (ilog2 \<bar>q\<bar>) / 2 ^ 52"
      by (simp add: power_int_diff)
    also have "\<dots> \<le> \<bar>q\<bar> / 2 ^ 52"
      using ilog2_bounds(1) [OF a] by (simp add: divide_right_mono)
    finally show ?thesis by simp
  next
    case False
    then have "p = - 1074" by (simp add: p_def)
    then have "(2::rat) powi p = 1 / 2 ^ 1074"
      by (simp add: power_int_minus_divide)
    then show ?thesis by simp
  qed
qed

lemma round64_finite:
  assumes "\<bar>q\<bar> \<le> 2 ^ 1023"
  shows "\<exists>r. round64 q = Fin r \<and> \<bar>r - q\<bar> \<le> max (\<bar>q\<bar> / 2 ^ 53) (1 / 2 ^ 1075)
           \<and> (0 \<le> q \<longrightarrow> 0 \<le> r) \<and> (q \<le> 0 \<longrightarrow> r \<le> 0)"
proof (cases "q = 0")
  case True
  then show ?thesis by simp
next
  case False
  define p where "p = max (ilog2 \<bar>q\<bar> - 52) (- 1074)"
  define r :: rat where "r = of_int (round_half_even (\<bar>q\<bar> / 2 powi p)) * 2 powi p"
  define B :: rat where "B = 2 ^ 1023"
  note f = round64_nonzero [OF False, folded p_def r_def]
  have B1: "1 \<le> B" by (simp add: B_def)
  have B2: "(2::rat) ^ 1024 = 2 * B" by (simp add: B_def)
  have qB: "\<bar>q\<bar> \<le> B" using assms by (simp add: B_def)
  have h: "(2::rat) powi p / 2 \<le> max (\<bar>q\<bar> / 2 ^ 53) (1 / 2 ^ 1075)"
  proof -
    have "(2::rat) powi p / 2 \<le> max (\<bar>q\<bar> / 2 ^ 52) (1 / 2 ^ 1074) / 2"
      using f(4) by (simp add: divide_right_mono)
    also have "\<dots> = max (\<bar>q\<bar> / 2 ^ 52 / 2) (1 / 2 ^ 1074 / 2)"
      by (simp add: max_def)
    also have "\<dots> = max (\<bar>q\<bar> / 2 ^ 53) (1 / 2 ^ 1075)"
      by simp
    finally show ?thesis .
  qed
  have e1: "\<bar>q\<bar> / 2 ^ 53 \<le> \<bar>q\<bar> / 2"
    by (intro divide_left_mono) simp_all
  have e2: "(1::rat) / 2 ^ 1075 \<le> 1 / 2"
    by (intro divide_left_mono) simp_all
  have hb: "max (\<bar>q\<bar> / 2 ^ 53) (1 / 2 ^ 1075) \<le> B / 2"
    using e1 e2 qB B1 by (simp add: max_def)
  define M where "M = max (\<bar>q\<bar> / 2 ^ 53) (1 / 2 ^ 1075)"
  from f(3) h have err: "\<bar>r - \<bar>q\<bar>\<bar> \<le> M" unfolding M_def by (rule order_trans)
  from hb have "M \<le> B / 2" by (simp only: M_def)
  with err qB B1 have "r < 2 * B" by linarith
  then have nb: "\<not> (2::rat) ^ 1024 \<le> r" unfolding B2 by simp
  have fin: "round64 q = Fin (if q < 0 then - r else r)"
    using f(1) nb by (simp only: if_False)
  show ?thesis
  proof (cases "q < 0")
    case True
    with fin err f(2) show ?thesis unfolding M_def [symmetric] by (auto simp: abs_if split: if_splits)
  next
    case False
    with fin err f(2) show ?thesis unfolding M_def [symmetric] by (auto simp: abs_if split: if_splits)
  qed
qed

lemma round64_sign:
  "0 \<le> q \<Longrightarrow> nonneg (round64 q)"
proof (cases "q = 0")
  case True
  then show ?thesis by simp
next
  case False
  assume "0 \<le> q"
  with False round64_nonzero(1,2) [OF False] show ?thesis
    by (auto split: if_splits)
qed

lemma round_half_even_le_int:
  assumes "t \<le> of_int k"
  shows "round_half_even t \<le> k"
proof -
  have c: "\<lceil>t\<rceil> \<le> k" using assms by (simp add: ceiling_le)
  have "round_half_even t \<le> \<lceil>t\<rceil>"
    by (auto simp: round_half_even_def Let_def ceiling_altdef)
  with c show ?thesis by simp
qed

lemma ilog2_mono:
  assumes "0 < a" "a \<le> b"
  shows "ilog2 a \<le> ilog2 b"
proof -
  from assms have b: "0 < b" by simp
  have "(2::rat) powi (ilog2 a) \<le> a" by (rule ilog2_bounds(1) [OF assms(1)])
  also have "\<dots> \<le> b" by (rule assms(2))
  also have "\<dots> < 2 powi (ilog2 b + 1)" by (rule ilog2_bounds(2) [OF b])
  finally have "(2::rat) powi (ilog2 a) < 2 powi (ilog2 b + 1)" .
  then have "ilog2 a < ilog2 b + 1"
    by (metis linorder_not_less one_le_numeral power_int_increasing)
  then show ?thesis by simp
qed

lemma round64_le_float:
  assumes "0 < a" "a \<le> b" "round64 b = Fin b"
  shows "\<exists>fa. round64 a = Fin fa \<and> 0 \<le> fa \<and> fa \<le> b"
proof -
  from assms have b: "0 < b" by simp
  define pa where "pa = max (ilog2 \<bar>a\<bar> - 52) (- 1074)"
  define pb where "pb = max (ilog2 \<bar>b\<bar> - 52) (- 1074)"
  define ra :: rat where "ra = of_int (round_half_even (\<bar>a\<bar> / 2 powi pa)) * 2 powi pa"
  define rb :: rat where "rb = of_int (round_half_even (\<bar>b\<bar> / 2 powi pb)) * 2 powi pb"
  from assms(1) have a0: "a \<noteq> 0" by simp
  from b have b0: "b \<noteq> 0" by simp
  note fa = round64_nonzero [OF a0, folded pa_def ra_def]
  note fb = round64_nonzero [OF b0, folded pb_def rb_def]
  from fb(1) assms(3) b have rb: "rb = b" and rb_small: "\<not> 2 ^ 1024 \<le> rb"
    by (auto split: if_splits)
  have "ilog2 \<bar>a\<bar> \<le> ilog2 \<bar>b\<bar>"
    using ilog2_mono [of a b] assms(1,2) by simp
  then have pp: "pa \<le> pb" by (simp add: pa_def pb_def)
  define K where "K = round_half_even (\<bar>b\<bar> / 2 powi pb) * 2 ^ nat (pb - pa)"
  have "(2::rat) powi pb = 2 powi (pb - pa) * 2 powi pa"
    by (simp add: power_int_add [symmetric])
  also have "(2::rat) powi (pb - pa) = of_int (2 ^ nat (pb - pa))"
    using pp by (simp add: power_int_def)
  finally have grid: "b = of_int K * 2 powi pa"
    using rb by (simp add: rb_def K_def mult.assoc)
  have "\<bar>a\<bar> / 2 powi pa \<le> of_int K"
    using assms(1,2) grid by (simp add: pos_divide_le_eq)
  then have "round_half_even (\<bar>a\<bar> / 2 powi pa) \<le> K" by (rule round_half_even_le_int)
  then have "ra \<le> of_int K * 2 powi pa"
    unfolding ra_def by (intro mult_right_mono) simp_all
  with grid have le: "ra \<le> b" by simp
  with rb rb_small have "\<not> 2 ^ 1024 \<le> ra" by simp
  with fa(1,2) assms(1) le show ?thesis by simp
qed

text \<open>
  The result of \<open>round64\<close>, when finite, is a binary64 number, and no binary64 number is
  closer to the argument; the binary64 numbers are the values that \<open>round64\<close> leaves
  as they are.
\<close>

lemma round_half_even_nearest:
  "\<bar>of_int (round_half_even t) - t\<bar> \<le> \<bar>of_int k - t\<bar>"
proof -
  have f: "of_int \<lfloor>t\<rfloor> \<le> t" "t < of_int \<lfloor>t\<rfloor> + 1" by linarith+
  consider "k \<le> \<lfloor>t\<rfloor>" | "\<lfloor>t\<rfloor> + 1 \<le> k" by linarith
  then show ?thesis
  proof cases
    case 1
    then have "(of_int k :: rat) \<le> of_int \<lfloor>t\<rfloor>" by (simp only: of_int_le_iff)
    with f show ?thesis
      by (auto simp: round_half_even_def Let_def; linarith)
  next
    case 2
    then have "(of_int (\<lfloor>t\<rfloor> + 1) :: rat) \<le> of_int k" by (simp only: of_int_le_iff)
    then have "(of_int \<lfloor>t\<rfloor> + 1 :: rat) \<le> of_int k" by simp
    with f show ?thesis
      by (auto simp: round_half_even_def Let_def; linarith)
  qed
qed

lemma round_half_even_ge_int:
  assumes "of_int k \<le> t"
  shows "k \<le> round_half_even t"
proof -
  have c: "k \<le> \<lfloor>t\<rfloor>" using assms by (simp add: le_floor_iff)
  have "\<lfloor>t\<rfloor> \<le> round_half_even t"
    by (auto simp: round_half_even_def Let_def)
  with c show ?thesis by simp
qed

lemma grid_nearest:
  fixes q :: rat
  assumes "0 < q"
  shows "\<bar>of_int (round_half_even (q / 2 powi p)) * 2 powi p - q\<bar> \<le> \<bar>of_int k * 2 powi p - q\<bar>"
proof -
  let ?t = "q / 2 powi p"
  have pp: "0 < (2::rat) powi p" by simp
  have e: "\<bar>of_int j * 2 powi p - q\<bar> = \<bar>of_int j - ?t\<bar> * 2 powi p" for j :: int
  proof -
    have "of_int j * 2 powi p - q = (of_int j - ?t) * 2 powi p"
      using pp by (simp add: left_diff_distrib)
    then show ?thesis using pp by (simp add: abs_mult)
  qed
  have "\<bar>of_int (round_half_even ?t) - ?t\<bar> * 2 powi p \<le> \<bar>of_int k - ?t\<bar> * 2 powi p"
    using pp round_half_even_nearest [of ?t k] by (intro mult_right_mono) simp_all
  then show ?thesis by (simp only: e)
qed

lemma is_float_minus: "is_float z \<Longrightarrow> is_float (- z)"
proof -
  assume "is_float z"
  then obtain k p where z: "z = of_int k * 2 powi p" and k: "\<bar>k\<bar> < 2 ^ 53"
    and p: "- 1074 \<le> p" "p \<le> 971" unfolding is_float_def by blast
  from z have "- z = of_int (- k) * 2 powi p" by simp
  moreover from k have "\<bar>- k\<bar> < 2 ^ 53" by simp
  ultimately show ?thesis unfolding is_float_def using p by blast
qed

lemma powi_int_multiple:
  assumes "p \<le> j"
  shows "(2::rat) powi j = of_int (2 ^ nat (j - p)) * 2 powi p"
proof -
  have "(2::rat) powi j = 2 powi (j - p) * 2 powi p"
    by (simp add: power_int_add [symmetric])
  also have "(2::rat) powi (j - p) = of_int (2 ^ nat (j - p))"
    using assms by (simp add: power_int_def)
  finally show ?thesis .
qed

lemma float_on_grid:
  fixes q :: rat
  assumes q: "0 < q" and z: "is_float z"
  defines "p \<equiv> max (ilog2 q - 52) (- 1074)"
  shows "\<exists>k. \<bar>of_int k * 2 powi p - q\<bar> \<le> \<bar>z - q\<bar>"
proof -
  from z obtain kz j where zz: "z = of_int kz * 2 powi j" and kz: "\<bar>kz\<bar> < 2 ^ 53"
    and j: "- 1074 \<le> j" unfolding is_float_def by blast
  show ?thesis
  proof (cases "z \<le> 0")
    case True
    with q have "\<bar>of_int 0 * 2 powi p - q\<bar> \<le> \<bar>z - q\<bar>" by simp
    then show ?thesis ..
  next
    case False
    then have zpos: "0 < z" by simp
    show ?thesis
    proof (cases "p \<le> j")
      case True
      from powi_int_multiple [OF True]
      have "z = of_int (kz * 2 ^ nat (j - p)) * 2 powi p"
        by (simp add: zz mult.assoc)
      then have "\<bar>of_int (kz * 2 ^ nat (j - p)) * 2 powi p - q\<bar> \<le> \<bar>z - q\<bar>" by simp
      then show ?thesis ..
    next
      case False
      with j have pe: "p = ilog2 q - 52" and jp: "j + 1 \<le> p" by (simp_all add: p_def)
      have "of_int kz < (of_int (2 ^ 53) :: rat)"
        using kz by (simp only: of_int_less_iff)
      then have "z < 2 ^ 53 * 2 powi j"
        unfolding zz by (simp add: mult_strict_right_mono)
      also have "\<dots> = 2 powi (53 + j)"
        by (simp add: power_int_add)
      also have "\<dots> \<le> 2 powi (ilog2 q)"
        using jp pe by (intro power_int_increasing) simp_all
      finally have zg: "z < 2 powi (ilog2 q)" .
      have gq: "2 powi (ilog2 q) \<le> q" by (rule ilog2_bounds(1) [OF q])
      have "(2::rat) powi (ilog2 q) = 2 ^ 52 * 2 powi p"
        by (simp add: pe power_int_diff)
      then have g: "of_int (2 ^ 52) * 2 powi p = (2::rat) powi (ilog2 q)" by simp
      have "\<bar>of_int (2 ^ 52) * 2 powi p - q\<bar> \<le> \<bar>z - q\<bar>"
        unfolding g using zg gq by simp
      then show ?thesis ..
    qed
  qed
qed

lemma round64_nearest_pos:
  assumes q: "0 < q" and r: "round64 q = Fin r" and z: "is_float z"
  shows "\<bar>r - q\<bar> \<le> \<bar>z - q\<bar>"
proof -
  define p where "p = max (ilog2 q - 52) (- 1074)"
  from q have q0: "q \<noteq> 0" and aq: "\<bar>q\<bar> = q" by simp_all
  note f = round64_nonzero(1) [OF q0, unfolded aq, folded p_def]
  from f r q have rr: "r = of_int (round_half_even (q / 2 powi p)) * 2 powi p"
    by (auto split: if_splits)
  from float_on_grid [OF q z, folded p_def] obtain k
    where k: "\<bar>of_int k * 2 powi p - q\<bar> \<le> \<bar>z - q\<bar>" ..
  from grid_nearest [OF q, of p k] k show ?thesis unfolding rr by (rule order_trans)
qed

lemma round64_minus:
  "round64 (- q) = (case round64 q of Fin r \<Rightarrow> Fin (- r) | Inf s \<Rightarrow> Inf (\<not> s) | Nan \<Rightarrow> Nan)"
proof (cases "q = 0")
  case True
  then show ?thesis by simp
next
  case False
  then show ?thesis
    by (auto simp: round64_def Let_def)
qed

lemma round64_nearest:
  assumes r: "round64 q = Fin r" and z: "is_float z"
  shows "\<bar>r - q\<bar> \<le> \<bar>z - q\<bar>"
proof -
  consider "q = 0" | "0 < q" | "q < 0" by linarith
  then show ?thesis
  proof cases
    case 1
    with r show ?thesis by simp
  next
    case 2
    then show ?thesis using r z by (rule round64_nearest_pos)
  next
    case 3
    then have q: "0 < - q" by simp
    from r have r': "round64 (- q) = Fin (- r)" by (simp add: round64_minus)
    from round64_nearest_pos [OF q r' is_float_minus [OF z]]
    have "\<bar>- r - - q\<bar> \<le> \<bar>- z - - q\<bar>" .
    moreover have "\<bar>- r - - q\<bar> = \<bar>r - q\<bar>" by (simp add: abs_minus_commute)
    moreover have "\<bar>- z - - q\<bar> = \<bar>z - q\<bar>" by (simp add: abs_minus_commute)
    ultimately show ?thesis by simp
  qed
qed

lemma powi_less_cancel:
  "(2::rat) powi a < 2 powi b \<Longrightarrow> a < b"
  by (metis linorder_not_less one_le_numeral power_int_increasing)

lemma round64_is_float_pos:
  assumes q: "0 < q" and r: "round64 q = Fin r"
  shows "is_float r"
proof -
  define p where "p = max (ilog2 q - 52) (- 1074)"
  define t where "t = q / 2 powi p"
  define m where "m = round_half_even t"
  from q have q0: "q \<noteq> 0" and aq: "\<bar>q\<bar> = q" by simp_all
  note f = round64_nonzero(1) [OF q0, unfolded aq, folded p_def, folded t_def, folded m_def]
  from f r q have rr: "r = of_int m * 2 powi p" and small: "of_int m * 2 powi p < (2::rat) ^ 1024"
    by (auto split: if_splits)
  have pp: "0 < (2::rat) powi p" by simp
  have p1: "- 1074 \<le> p" by (simp add: p_def)
  have "0 \<le> t" using q by (simp add: t_def)
  then have m0: "0 \<le> m" unfolding m_def by (rule round_half_even_nonneg)
  have "q < 2 powi (ilog2 q + 1)" by (rule ilog2_bounds(2) [OF q])
  also have "\<dots> \<le> 2 powi (p + 53)"
    by (intro power_int_increasing) (simp_all add: p_def)
  also have "\<dots> = 2 ^ 53 * 2 powi p" by (simp add: power_int_add)
  finally have "t < 2 ^ 53" using pp by (simp add: t_def pos_divide_less_eq)
  then have "t \<le> of_int (2 ^ 53)" by simp
  then have m53: "m \<le> 2 ^ 53" unfolding m_def by (rule round_half_even_le_int)
  show ?thesis
  proof (cases "m = 2 ^ 53")
    case True
    have "(2::rat) powi (p + 53) = 2 ^ 53 * 2 powi p" by (simp add: power_int_add)
    also have "\<dots> < 2 ^ 1024" using small True by simp
    also have "\<dots> = 2 powi 1024" by simp
    finally have "p + 53 < 1024" by (rule powi_less_cancel)
    then have p2: "p + 1 \<le> 971" by simp
    have "r = of_int (2 ^ 52) * 2 powi (p + 1)"
      by (simp add: rr True power_int_add)
    moreover have "\<bar>2 ^ 52 :: int\<bar> < 2 ^ 53" by simp
    moreover have "- 1074 \<le> p + 1" using p1 by simp
    ultimately show ?thesis unfolding is_float_def using p2 by blast
  next
    case False
    with m53 m0 have mk: "\<bar>m\<bar> < 2 ^ 53" by simp
    have p2: "p \<le> 971"
    proof (rule ccontr)
      assume "\<not> p \<le> 971"
      then have p972: "972 \<le> p" by simp
      then have pe: "p = ilog2 q - 52" by (simp add: p_def)
      have "(2::rat) ^ 52 * 2 powi p = 2 powi (ilog2 q)"
        by (simp add: pe power_int_diff)
      also have "\<dots> \<le> q" by (rule ilog2_bounds(1) [OF q])
      finally have "of_int (2 ^ 52) \<le> t" using pp by (simp add: t_def pos_le_divide_eq)
      then have "2 ^ 52 \<le> m" unfolding m_def by (rule round_half_even_ge_int)
      then have "(of_int (2 ^ 52) :: rat) \<le> of_int m" by (simp only: of_int_le_iff)
      then have "(2::rat) ^ 52 * 2 powi p \<le> of_int m * 2 powi p"
        using pp by (simp add: mult_right_mono)
      moreover have "(2::rat) powi 972 \<le> 2 powi p"
        using p972 by (intro power_int_increasing) simp_all
      then have "(2::rat) ^ 52 * 2 powi 972 \<le> 2 ^ 52 * 2 powi p" by simp
      moreover have "(2::rat) ^ 52 * 2 powi 972 = 2 powi 1024"
        by (simp add: power_int_add [symmetric])
      ultimately have "(2::rat) powi 1024 \<le> of_int m * 2 powi p" by linarith
      with small show False by simp
    qed
    from rr mk p1 p2 show ?thesis unfolding is_float_def by blast
  qed
qed

lemma is_float_zero: "is_float 0"
proof -
  have "(0::rat) = of_int 0 * 2 powi 0 \<and> \<bar>0::int\<bar> < 2 ^ 53 \<and> - 1074 \<le> (0::int) \<and> (0::int) \<le> 971"
    by simp
  then show ?thesis unfolding is_float_def by blast
qed

lemma round64_is_float:
  assumes r: "round64 q = Fin r"
  shows "is_float r"
proof -
  consider "q = 0" | "0 < q" | "q < 0" by linarith
  then show ?thesis
  proof cases
    case 1
    with r show ?thesis by (simp add: is_float_zero)
  next
    case 2
    then show ?thesis using r by (rule round64_is_float_pos)
  next
    case 3
    then have q: "0 < - q" by simp
    from r have r': "round64 (- q) = Fin (- r)" by (simp add: round64_minus)
    from is_float_minus [OF round64_is_float_pos [OF q r']] show ?thesis by simp
  qed
qed

lemma float_fixed_pos:
  assumes z: "0 < z" and f: "is_float z"
  shows "round64 z = Fin z"
proof -
  define p where "p = max (ilog2 z - 52) (- 1074)"
  from f obtain k j where zz: "z = of_int k * 2 powi j" and k: "\<bar>k\<bar> < 2 ^ 53"
    and j: "- 1074 \<le> j" "j \<le> 971" unfolding is_float_def by blast
  from z have z0: "z \<noteq> 0" and az: "\<bar>z\<bar> = z" by simp_all
  have pp: "0 < (2::rat) powi p" by simp
  have "of_int k < (of_int (2 ^ 53) :: rat)"
    using k by (simp only: of_int_less_iff)
  then have "z < 2 ^ 53 * 2 powi j"
    unfolding zz by (simp add: mult_strict_right_mono)
  also have "\<dots> = 2 powi (53 + j)" by (simp add: power_int_add)
  finally have zlt: "z < 2 powi (53 + j)" .
  have pj: "p \<le> j"
  proof -
    have "2 powi (ilog2 z) \<le> z" by (rule ilog2_bounds(1) [OF z])
    also note zlt
    finally have "ilog2 z < 53 + j" by (rule powi_less_cancel)
    with j show ?thesis by (simp add: p_def)
  qed
  from powi_int_multiple [OF pj]
  have grid: "z = of_int (k * 2 ^ nat (j - p)) * 2 powi p"
    by (simp add: zz mult.assoc)
  then have "z / 2 powi p = of_int (k * 2 ^ nat (j - p))"
    using pp by (subst grid) simp
  then have "round_half_even (z / 2 powi p) = k * 2 ^ nat (j - p)"
    by (simp only: round_half_even_of_int)
  with grid have r: "of_int (round_half_even (z / 2 powi p)) * 2 powi p = z" by simp
  have "(2::rat) powi (53 + j) \<le> 2 powi 1024"
    using j by (intro power_int_increasing) simp_all
  with zlt have "z < 2 powi 1024" by simp
  then have small: "\<not> 2 ^ 1024 \<le> z" by simp
  note e = round64_nonzero(1) [OF z0, unfolded az, folded p_def, unfolded r]
  from e small z show ?thesis by (simp only: if_False) simp
qed

lemma float_fixed:
  assumes "is_float z"
  shows "round64 z = Fin z"
proof -
  consider "z = 0" | "0 < z" | "z < 0" by linarith
  then show ?thesis
  proof cases
    case 1
    then show ?thesis by simp
  next
    case 2
    then show ?thesis using assms by (rule float_fixed_pos)
  next
    case 3
    then have "0 < - z" by simp
    from float_fixed_pos [OF this is_float_minus [OF assms]]
    have "round64 (- z) = Fin (- z)" .
    then show ?thesis by (simp add: round64_minus split: pyfloat.splits)
  qed
qed

lemma is_float_code [code]: "is_float z \<longleftrightarrow> round64 z = Fin z"
  using float_fixed round64_is_float by blast

lemma round64_nearest_float: "round64 q = Fin r \<Longrightarrow> nearest_float q r"
  unfolding nearest_float_def using round64_is_float round64_nearest by blast

section \<open>Valid amounts and the balance\<close>

lemma find_set_balance:
  assumes "find_account st n = Some acct"
  shows "find_account (set_balance st acct x) n = Some (acct\<lparr>balance := x\<rparr>)"
proof -
  have "find (\<lambda>a. account_number a = n) xs = Some acct \<Longrightarrow>
        find (\<lambda>a. account_number a = n)
          (map (\<lambda>r. if id_pk r = id_pk acct then r\<lparr>balance := x\<rparr> else r) xs)
        = Some (acct\<lparr>balance := x\<rparr>)" for xs
    by (induction xs) (auto split: if_splits)
  with assms show ?thesis by (simp add: find_account_def set_balance_def)
qed

lemma valid_amount:
  assumes "Decimal_of_amount raw = Some (Finite s c e)" and "first_failing raw = None"
  shows "0 < dec_val s c e" "dec_val s c e \<le> 99999999" "- 2 \<le> e"
  using assms(2) unfolding first_failing_Finite [OF assms(1)]
  by (auto split: if_splits)

lemma valid_amount_cent:
  assumes "0 < dec_val s c e" and "- 2 \<le> e"
  shows "1 / 100 \<le> dec_val s c e"
proof -
  have p: "(1::rat) / 100 \<le> 10 powi e"
  proof -
    have "(10::rat) powi (- 2) \<le> 10 powi e"
      using assms(2) by (intro power_int_increasing) simp_all
    then show ?thesis by (simp add: power_int_minus_divide)
  qed
  have pos: "0 < (10::rat) powi e" by (simp add: power_int_def)
  have "dec_val s c e = of_int (if s then - c else c) * 10 powi e"
    by (simp add: dec_val_def)
  moreover from this assms(1) pos have "0 < (of_int (if s then - c else c) :: rat)"
    by (simp add: zero_less_mult_iff)
  then have "1 \<le> (if s then - c else c)" by (simp split: if_splits)
  then have "(1::rat) \<le> of_int (if s then - c else c)" by (simp only: of_int_1_le_iff)
  then have "1 * (1 / 100) \<le> (of_int (if s then - c else c) :: rat) * 10 powi e"
    using p by (intro mult_mono) simp_all
  ultimately show ?thesis by simp
qed

lemma valid_amount_float:
  assumes "Decimal_of_amount raw = Some (Finite s c e)" and "first_failing raw = None"
  shows "\<exists>fa. round64 (dec_val s c e) = Fin fa \<and> 0 \<le> fa
           \<and> \<bar>fa - dec_val s c e\<bar> \<le> dec_val s c e / 2 ^ 53"
proof -
  define a where "a = dec_val s c e"
  note v = valid_amount [OF assms, folded a_def]
  from valid_amount_cent [OF valid_amount(1,3) [OF assms]] have cent: "1 / 100 \<le> a"
    by (simp add: a_def)
  have "\<bar>a\<bar> \<le> 2 ^ 1023"
  proof -
    have "(99999999::rat) \<le> 2 ^ 27" by simp
    also have "\<dots> \<le> 2 ^ 1023" by (intro power_increasing) simp_all
    finally show ?thesis using v by simp
  qed
  from round64_finite [OF this] obtain fa where
    fa: "round64 a = Fin fa" "\<bar>fa - a\<bar> \<le> max (\<bar>a\<bar> / 2 ^ 53) (1 / 2 ^ 1075)" "0 \<le> fa"
    using v(1) by auto
  have "(1::rat) / 2 ^ 1075 \<le> a / 2 ^ 53"
  proof -
    have "(1::rat) / 2 ^ 1075 = (1 / 2 ^ 1022) / 2 ^ 53"
      by (simp add: power_add [symmetric])
    also have "\<dots> \<le> (1 / 100) / 2 ^ 53"
    proof (intro divide_right_mono divide_left_mono)
      have "(100::rat) \<le> 2 ^ 7" by simp
      also have "\<dots> \<le> 2 ^ 1022" by (intro power_increasing) simp_all
      finally show "(100::rat) \<le> 2 ^ 1022" .
    qed simp_all
    also have "\<dots> \<le> a / 2 ^ 53" using cent by (intro divide_right_mono) simp_all
    finally show ?thesis .
  qed
  with fa(2) v(1) have "\<bar>fa - a\<bar> \<le> a / 2 ^ 53" by (simp add: max_def split: if_splits)
  with fa(1,3) show ?thesis by (auto simp: a_def)
qed

lemma deposit_valid:
  assumes "find_account st n = Some acct" and "amount_of data = Some raw"
    and "Decimal_of_amount raw = Some (Finite s c e)" and "first_failing raw = None"
  shows "handler Deposit st n data =
    (Inr (Response 200 (Balance (fadd (balance acct) (round64 (dec_val s c e))))),
     set_balance st acct (fadd (balance acct) (round64 (dec_val s c e))))"
  using valid_amount [OF assms(3,4)]
    handler_Finite [OF assms(1) amount_of_field [OF assms(2)] assms(3), of Deposit]
  by simp

lemma withdraw_valid:
  assumes "find_account st n = Some acct" and "amount_of data = Some raw"
    and "Decimal_of_amount raw = Some (Finite s c e)" and "first_failing raw = None"
  shows "handler Withdraw st n data =
    (if flt (balance acct) (round64 (dec_val s c e))
     then (Inr (Response 400 (Error ''Insufficient balance'')), st)
     else (Inr (Response 200 (Balance (fsub (balance acct) (round64 (dec_val s c e))))),
           set_balance st acct (fsub (balance acct) (round64 (dec_val s c e)))))"
  using valid_amount [OF assms(3,4)]
    handler_Finite [OF assms(1) amount_of_field [OF assms(2)] assms(3), of Withdraw]
  by simp

lemma deposit_float:
  assumes "find_account st n = Some acct" and "balance acct = Fin b"
    and "amount_of data = Some raw" and "Decimal_of_amount raw = Some (Finite s c e)"
    and "first_failing raw = None"
  shows "\<exists>fa. round64 (dec_val s c e) = Fin fa
      \<and> \<bar>fa - dec_val s c e\<bar> \<le> dec_val s c e / 2 ^ 53
      \<and> handler Deposit st n data
          = (Inr (Response 200 (Balance (round64 (b + fa)))),
             set_balance st acct (round64 (b + fa)))
      \<and> find_account (set_balance st acct (round64 (b + fa))) n
          = Some (acct\<lparr>balance := round64 (b + fa)\<rparr>)
      \<and> nearest_float (dec_val s c e) fa
      \<and> (\<forall>r. round64 (b + fa) = Fin r \<longrightarrow> nearest_float (b + fa) r)
      \<and> (is_float (dec_val s c e) \<and> is_float (b + dec_val s c e) \<longrightarrow>
            round64 (b + fa) = Fin (b + dec_val s c e))
      \<and> (\<bar>b\<bar> \<le> 2 ^ 1022 \<longrightarrow>
            (\<exists>r. round64 (b + fa) = Fin r
               \<and> \<bar>r - (b + fa)\<bar> \<le> max (\<bar>b + fa\<bar> / 2 ^ 53) (1 / 2 ^ 1075)))"
proof -
  define a where "a = dec_val s c e"
  from valid_amount_float [OF assms(4,5)] obtain fa where
    fa: "round64 a = Fin fa" "0 \<le> fa" "\<bar>fa - a\<bar> \<le> a / 2 ^ 53"
    by (auto simp: a_def)
  note v = valid_amount [OF assms(4,5), folded a_def]
  have h: "handler Deposit st n data
          = (Inr (Response 200 (Balance (round64 (b + fa)))),
             set_balance st acct (round64 (b + fa)))"
    using deposit_valid [OF assms(1,3,4,5)] fa(1) assms(2) by (simp add: a_def)
  have p: "find_account (set_balance st acct (round64 (b + fa))) n
          = Some (acct\<lparr>balance := round64 (b + fa)\<rparr>)"
    by (rule find_set_balance [OF assms(1)])
  have big: "\<exists>r. round64 (b + fa) = Fin r
               \<and> \<bar>r - (b + fa)\<bar> \<le> max (\<bar>b + fa\<bar> / 2 ^ 53) (1 / 2 ^ 1075)"
    if b: "\<bar>b\<bar> \<le> 2 ^ 1022"
  proof -
    have "a / 2 ^ 53 \<le> a" using v(1) by (simp add: pos_divide_le_eq)
    with fa(3) have "fa \<le> 2 * a" by linarith
    also have "\<dots> \<le> 2 * 99999999" using v(2) by simp
    also have "\<dots> \<le> (2::rat) ^ 28" by simp
    also have "\<dots> \<le> 2 ^ 1022" by (intro power_increasing) simp_all
    finally have "fa \<le> 2 ^ 1022" .
    with b fa(2) have "\<bar>b + fa\<bar> \<le> 2 ^ 1022 + 2 ^ 1022" by linarith
    also have "\<dots> = (2::rat) ^ 1023" by simp
    finally have "\<bar>b + fa\<bar> \<le> 2 ^ 1023" .
    from round64_finite [OF this] show ?thesis by blast
  qed
  have na: "nearest_float a fa" using fa(1) by (rule round64_nearest_float)
  have nr: "\<forall>r. round64 (b + fa) = Fin r \<longrightarrow> nearest_float (b + fa) r"
    using round64_nearest_float by blast
  have ex: "round64 (b + fa) = Fin (b + a)" if "is_float a" "is_float (b + a)"
    using that fa(1) by (simp add: float_fixed)
  from fa(1,3) h p big na nr ex show ?thesis
    unfolding a_def by (intro exI [of _ fa]) auto
qed

lemma withdraw_float:
  assumes "find_account st n = Some acct" and "balance acct = Fin b"
    and "amount_of data = Some raw" and "Decimal_of_amount raw = Some (Finite s c e)"
    and "first_failing raw = None"
  shows "\<exists>fa. round64 (dec_val s c e) = Fin fa
      \<and> \<bar>fa - dec_val s c e\<bar> \<le> dec_val s c e / 2 ^ 53
      \<and> (fa \<le> b \<longrightarrow>
            handler Withdraw st n data
              = (Inr (Response 200 (Balance (round64 (b - fa)))),
                 set_balance st acct (round64 (b - fa)))
            \<and> find_account (set_balance st acct (round64 (b - fa))) n
              = Some (acct\<lparr>balance := round64 (b - fa)\<rparr>))
      \<and> (b < fa \<longrightarrow>
            handler Withdraw st n data
              = (Inr (Response 400 (Error ''Insufficient balance'')), st))
      \<and> (dec_val s c e \<le> b \<and> is_float b \<longrightarrow> fa \<le> b)
      \<and> nearest_float (dec_val s c e) fa
      \<and> (\<forall>r. round64 (b - fa) = Fin r \<longrightarrow> nearest_float (b - fa) r)
      \<and> (is_float (dec_val s c e) \<and> is_float (b - dec_val s c e) \<longrightarrow>
            round64 (b - fa) = Fin (b - dec_val s c e))"
proof -
  define a where "a = dec_val s c e"
  from valid_amount_float [OF assms(4,5)] obtain fa where
    fa: "round64 a = Fin fa" "0 \<le> fa" "\<bar>fa - a\<bar> \<le> a / 2 ^ 53"
    by (auto simp: a_def)
  note v = valid_amount [OF assms(4,5), folded a_def]
  note w = withdraw_valid [OF assms(1,3,4,5), folded a_def, unfolded fa(1) assms(2)]
  have ok: "handler Withdraw st n data
              = (Inr (Response 200 (Balance (round64 (b - fa)))),
                 set_balance st acct (round64 (b - fa)))" if "fa \<le> b"
    using w that by simp
  have p: "find_account (set_balance st acct (round64 (b - fa))) n
              = Some (acct\<lparr>balance := round64 (b - fa)\<rparr>)"
    by (rule find_set_balance [OF assms(1)])
  have no: "handler Withdraw st n data
              = (Inr (Response 400 (Error ''Insufficient balance'')), st)" if "b < fa"
    using w that by simp
  have le: "fa \<le> b" if "a \<le> b" "is_float b"
    using round64_le_float [OF v(1) that(1) float_fixed [OF that(2)]] fa(1) by simp
  have na: "nearest_float a fa" using fa(1) by (rule round64_nearest_float)
  have nr: "\<forall>r. round64 (b - fa) = Fin r \<longrightarrow> nearest_float (b - fa) r"
    using round64_nearest_float by blast
  have ex: "round64 (b - fa) = Fin (b - a)" if "is_float a" "is_float (b - a)"
    using that fa(1) by (simp add: float_fixed)
  from fa(1,3) ok p no le na nr ex show ?thesis
    unfolding a_def by (intro exI [of _ fa]) auto
qed

lemma handler_success:
  assumes "handler opn st n data = (Inr (Response 200 bd), st')"
  shows "\<exists>acct raw s c e. find_account st n = Some acct \<and> amount_of data = Some raw
           \<and> Decimal_of_amount raw = Some (Finite s c e) \<and> first_failing raw = None"
proof (cases "find_account st n")
  case None
  with assms show ?thesis by (simp add: handler_no_account)
next
  case (Some a)
  show ?thesis
  proof (cases "amount_field data")
    case (Inl x)
    with assms Some show ?thesis by (simp add: handler_field_raises)
  next
    case (Inr f)
    show ?thesis
    proof (cases f)
      case None
      with assms Some Inr show ?thesis by (simp add: handler_no_field)
    next
      case (Some raw)
      with Inr have f: "amount_field data = Inr (Some raw)" by simp
      then have ao: "amount_of data = Some raw" by (rule amount_field_of)
      note acc = \<open>find_account st n = Some a\<close>
      show ?thesis
      proof (cases "Decimal_of_amount raw")
        case None
        with assms acc f show ?thesis by (simp add: handler_not_numeric rejected_def)
      next
        case (Some d)
        show ?thesis
        proof (cases d)
          case (Finite s c e)
          with Some have D: "Decimal_of_amount raw = Some (Finite s c e)" by simp
          from assms have "first_failing raw = None"
            unfolding handler_Finite [OF acc f D] first_failing_Finite [OF D] rejected_def
            by (simp split: if_splits)
          with acc ao D show ?thesis by blast
        next
          case (Infinity s)
          with Some have D: "Decimal_of_amount raw = Some (Infinity s)" by simp
          from assms show ?thesis
            unfolding handler_Infinity [OF acc f D] rejected_def
            by (simp split: if_splits)
        next
          case (NaN s g)
          with Some have D: "Decimal_of_amount raw = Some (NaN s g)" by simp
          from assms show ?thesis
            unfolding handler_NaN [OF acc f D] by simp
        qed
      qed
    qed
  qed
qed

lemma nonneg_fadd: "nonneg x \<Longrightarrow> 0 \<le> y \<Longrightarrow> nonneg (fadd x (Fin y))"
  by (cases x) (simp_all add: round64_sign)

lemma nonneg_fsub: "nonneg x \<Longrightarrow> \<not> flt x (Fin y) \<Longrightarrow> nonneg (fsub x (Fin y))"
  by (cases x) (simp_all add: round64_sign)

lemma success_nonneg:
  assumes "find_account st n = Some acct" and "nonneg (balance acct)"
    and "handler opn st n data = (Inr (Response 200 bd), st')"
  shows "\<exists>x. bd = Balance x \<and> nonneg x \<and> find_account st' n = Some (acct\<lparr>balance := x\<rparr>)"
proof -
  from handler_success [OF assms(3)] assms(1) obtain raw s c e where
    r: "amount_of data = Some raw" "Decimal_of_amount raw = Some (Finite s c e)"
      "first_failing raw = None"
    by auto
  from valid_amount_float [OF r(2,3)] obtain fa where
    fa: "round64 (dec_val s c e) = Fin fa" "0 \<le> fa" by blast
  show ?thesis
  proof (cases opn)
    case Deposit
    from assms(3) have "bd = Balance (fadd (balance acct) (Fin fa))"
      and "st' = set_balance st acct (fadd (balance acct) (Fin fa))"
      unfolding Deposit deposit_valid [OF assms(1) r] fa(1) by simp_all
    with nonneg_fadd [OF assms(2) fa(2)] find_set_balance [OF assms(1)]
    show ?thesis by simp
  next
    case Withdraw
    from assms(3) have "\<not> flt (balance acct) (Fin fa)"
      and "bd = Balance (fsub (balance acct) (Fin fa))"
      and "st' = set_balance st acct (fsub (balance acct) (Fin fa))"
      unfolding Withdraw withdraw_valid [OF assms(1) r] fa(1) by (simp_all split: if_splits)
    with nonneg_fsub [OF assms(2)] find_set_balance [OF assms(1)]
    show ?thesis by simp
  qed
qed

lemma created_balance:
  assumes "create_account r st data = Some (Inr (Response code (Created num x)), st')"
  shows "balance_field data = Inr (Some x)
       \<and> accounts st' = accounts st @ [\<lparr>id_pk = next_id st, account_number = num, balance = x\<rparr>]"
  using assms
  by (auto simp: create_account_def insert_account_def Let_def
        split: if_splits sum.splits option.splits)

section \<open>The balance is never negative\<close>

text \<open>
  Claim C3, as stated, fails: \<open>create_account\<close> stores the initial balance of the
  request without any check, so an account is created with the balance -5, and a deposit
  of 1 into it succeeds and leaves -4.
\<close>

theorem negative_initial_balance_counterexample:
  "create_account 1234 \<lparr>accounts = [], next_id = 1\<rparr> (JObj [''balance'' \<mapsto> JInt (- 5)])
     = Some (Inr (Response 201 (Created ''1234'' (Fin (- 5)))), one_account (Fin (- 5)))
   \<and> \<not> nonneg (Fin (- 5))
   \<and> handler Deposit (one_account (Fin (- 5))) ''1234'' (amount_body (JInt 1))
     = (Inr (Response 200 (Balance (Fin (- 4)))), one_account (Fin (- 4)))
   \<and> \<not> nonneg (Fin (- 4))"
proof (intro conjI)
  show "create_account 1234 \<lparr>accounts = [], next_id = 1\<rparr> (JObj [''balance'' \<mapsto> JInt (- 5)])
     = Some (Inr (Response 201 (Created ''1234'' (Fin (- 5)))), one_account (Fin (- 5)))"
    by code_simp
  show "\<not> nonneg (Fin (- 5))" by simp
  show "handler Deposit (one_account (Fin (- 5))) ''1234'' (amount_body (JInt 1))
     = (Inr (Response 200 (Balance (Fin (- 4)))), one_account (Fin (- 4)))"
    by code_simp
  show "\<not> nonneg (Fin (- 4))" by simp
qed

text \<open>
  Claim C3, amended. After every successful deposit or withdrawal on an account whose
  balance is at least 0, the balance of the account is at least 0. An account is created
  with the balance that the request gives, as the Float column holds it (0.0 when the
  request gives none), whatever its sign.
\<close>

theorem balance_stays_nonneg:
  "(find_account st n = Some acct \<and> nonneg (balance acct)
      \<and> handler opn st n data = (Inr (Response 200 bd), st')
     \<longrightarrow> (\<exists>x. bd = Balance x \<and> nonneg x
            \<and> find_account st' n = Some (acct\<lparr>balance := x\<rparr>)))
   \<and> (create_account r cst cdata = Some (Inr (Response code (Created num y)), cst')
     \<longrightarrow> balance_field cdata = Inr (Some y)
         \<and> accounts cst'
             = accounts cst @ [\<lparr>id_pk = next_id cst, account_number = num, balance = y\<rparr>])"
  using success_nonneg created_balance by blast

theorem balance_stays_nonneg_witness:
  "find_account (one_account (Fin 50)) ''1234''
     = Some \<lparr>id_pk = 1, account_number = ''1234'', balance = Fin 50\<rparr>
   \<and> nonneg (Fin 50)
   \<and> handler Withdraw (one_account (Fin 50)) ''1234'' (amount_body (JInt 20))
       = (Inr (Response 200 (Balance (Fin 30))), one_account (Fin 30))
   \<and> nonneg (Fin 30)
   \<and> create_account 1234 \<lparr>accounts = [], next_id = 1\<rparr> (JObj Map.empty)
       = Some (Inr (Response 201 (Created ''1234'' (Fin 0))), one_account (Fin 0))
   \<and> balance_field (JObj Map.empty) = Inr (Some (Fin 0))"
proof -
  let ?acct = "\<lparr>id_pk = 1, account_number = ''1234'', balance = Fin 50\<rparr>"
  have a: "find_account (one_account (Fin 50)) ''1234'' = Some ?acct" by code_simp
  have b: "nonneg (balance ?acct)" by simp
  have h: "handler Withdraw (one_account (Fin 50)) ''1234'' (amount_body (JInt 20))
       = (Inr (Response 200 (Balance (Fin 30))), one_account (Fin 30))"
    by code_simp
  from balance_stays_nonneg [THEN conjunct1, rule_format, OF conjI [OF a conjI [OF b h]]]
  have n: "nonneg (Fin 30)" by auto
  have c: "create_account 1234 \<lparr>accounts = [], next_id = 1\<rparr> (JObj Map.empty)
       = Some (Inr (Response 201 (Created ''1234'' (Fin 0))), one_account (Fin 0))"
    by code_simp
  note f = balance_stays_nonneg [THEN conjunct2, rule_format, OF c, THEN conjunct1]
  have b': "nonneg (Fin 50)" by simp
  from a b' h n c f show ?thesis by (intro conjI)
qed

section \<open>What a deposit adds\<close>

text \<open>
  Claim C1, as stated, fails: the balance is a binary float. Depositing 0.1 and then 0.2
  into an empty account leaves 0.3000000000000000444 (Python prints
  0.30000000000000004), which is neither 0.3 nor the stored 0.1 plus 0.2; depositing 1
  into an account of 10000000000000000 leaves the balance as it was.
\<close>

theorem deposit_drift_counterexample:
  "first_failing (JFloat ''0.1'') = None \<and> first_failing (JFloat ''0.2'') = None
   \<and> handler Deposit (one_account (Fin 0)) ''1234'' (amount_body (JFloat ''0.1''))
       = (Inr (Response 200 (Balance (Fin (3602879701896397 / 36028797018963968)))),
          one_account (Fin (3602879701896397 / 36028797018963968)))
   \<and> handler Deposit (one_account (Fin (3602879701896397 / 36028797018963968))) ''1234''
         (amount_body (JFloat ''0.2''))
       = (Inr (Response 200 (Balance (Fin (1351079888211149 / 4503599627370496)))),
          one_account (Fin (1351079888211149 / 4503599627370496)))
   \<and> (1351079888211149 / 4503599627370496 :: rat) \<noteq> 0 + 1 / 10 + 2 / 10
   \<and> (1351079888211149 / 4503599627370496 :: rat)
       \<noteq> 3602879701896397 / 36028797018963968 + 2 / 10
   \<and> first_failing (JInt 1) = None
   \<and> handler Deposit (one_account (Fin 10000000000000000)) ''1234'' (amount_body (JInt 1))
       = (Inr (Response 200 (Balance (Fin 10000000000000000))),
          one_account (Fin 10000000000000000))
   \<and> (10000000000000000 :: rat) \<noteq> 10000000000000000 + 1"
proof (intro conjI)
  show "first_failing (JFloat ''0.1'') = None" by code_simp
  show "first_failing (JFloat ''0.2'') = None" by code_simp
  show "handler Deposit (one_account (Fin 0)) ''1234'' (amount_body (JFloat ''0.1''))
       = (Inr (Response 200 (Balance (Fin (3602879701896397 / 36028797018963968)))),
          one_account (Fin (3602879701896397 / 36028797018963968)))"
    by code_simp
  show "handler Deposit (one_account (Fin (3602879701896397 / 36028797018963968))) ''1234''
         (amount_body (JFloat ''0.2''))
       = (Inr (Response 200 (Balance (Fin (1351079888211149 / 4503599627370496)))),
          one_account (Fin (1351079888211149 / 4503599627370496)))"
    by code_simp
  show "(1351079888211149 / 4503599627370496 :: rat) \<noteq> 0 + 1 / 10 + 2 / 10" by simp
  show "(1351079888211149 / 4503599627370496 :: rat)
       \<noteq> 3602879701896397 / 36028797018963968 + 2 / 10" by simp
  show "first_failing (JInt 1) = None" by code_simp
  show "handler Deposit (one_account (Fin 10000000000000000)) ''1234'' (amount_body (JInt 1))
       = (Inr (Response 200 (Balance (Fin 10000000000000000))),
          one_account (Fin 10000000000000000))"
    by code_simp
  show "(10000000000000000 :: rat) \<noteq> 10000000000000000 + 1" by simp
qed

text \<open>
  Claim C1, amended. For every account with a finite balance \<open>b\<close> and every deposit of
  a valid amount \<open>a\<close>, the deposit succeeds and the persisted balance is the float
  nearest to \<open>b + fl a\<close> (an infinity when that overflows), where \<open>fl a\<close> is the
  float nearest to \<open>a\<close> (within \<open>a / 2 ^ 53\<close> of it). It is \<open>b + a\<close> exactly when
  \<open>a\<close> and \<open>b + a\<close> are floats; otherwise, for \<open>|b| \<le> 2 ^ 1022\<close>, it is within
  half a unit in the last place of \<open>b + fl a\<close>.
\<close>

theorem deposit_adds_rounded:
  assumes "find_account st n = Some acct" and "balance acct = Fin b"
    and "amount_of data = Some raw" and "Decimal_of_amount raw = Some (Finite s c e)"
    and "first_failing raw = None"
  shows "\<exists>fa. round64 (dec_val s c e) = Fin fa
      \<and> \<bar>fa - dec_val s c e\<bar> \<le> dec_val s c e / 2 ^ 53
      \<and> handler Deposit st n data
          = (Inr (Response 200 (Balance (round64 (b + fa)))),
             set_balance st acct (round64 (b + fa)))
      \<and> find_account (set_balance st acct (round64 (b + fa))) n
          = Some (acct\<lparr>balance := round64 (b + fa)\<rparr>)
      \<and> nearest_float (dec_val s c e) fa
      \<and> (\<forall>r. round64 (b + fa) = Fin r \<longrightarrow> nearest_float (b + fa) r)
      \<and> (is_float (dec_val s c e) \<and> is_float (b + dec_val s c e) \<longrightarrow>
            round64 (b + fa) = Fin (b + dec_val s c e))
      \<and> (\<bar>b\<bar> \<le> 2 ^ 1022 \<longrightarrow>
            (\<exists>r. round64 (b + fa) = Fin r
               \<and> \<bar>r - (b + fa)\<bar> \<le> max (\<bar>b + fa\<bar> / 2 ^ 53) (1 / 2 ^ 1075)))"
  using assms by (rule deposit_float)

theorem deposit_adds_rounded_witness:
  "find_account (one_account (Fin 30)) ''1234''
     = Some \<lparr>id_pk = 1, account_number = ''1234'', balance = Fin 30\<rparr>
   \<and> amount_of (amount_body (JStr ''12.50'')) = Some (JStr ''12.50'')
   \<and> Decimal_of_amount (JStr ''12.50'') = Some (Finite False 1250 (- 2))
   \<and> first_failing (JStr ''12.50'') = None
   \<and> handler Deposit (one_account (Fin 30)) ''1234'' (amount_body (JStr ''12.50''))
       = (Inr (Response 200 (Balance (Fin (85 / 2)))), one_account (Fin (85 / 2)))
   \<and> dec_val False 1250 (- 2) = 25 / 2
   \<and> round64 (dec_val False 1250 (- 2)) = Fin (25 / 2)
   \<and> is_float (dec_val False 1250 (- 2))
   \<and> is_float (30 + dec_val False 1250 (- 2))
   \<and> nearest_float (30 + 25 / 2) (85 / 2)
   \<and> is_float 42 \<and> \<bar>85 / 2 - (30 + 25 / 2)\<bar> \<le> \<bar>42 - (30 + 25 / 2 :: rat)\<bar>
   \<and> \<bar>30 :: rat\<bar> \<le> 2 ^ 1022"
proof -
  let ?acct = "\<lparr>id_pk = 1, account_number = ''1234'', balance = Fin 30\<rparr>"
  have a: "find_account (one_account (Fin 30)) ''1234'' = Some ?acct" by code_simp
  have b: "balance ?acct = Fin 30" by simp
  have c: "amount_of (amount_body (JStr ''12.50'')) = Some (JStr ''12.50'')"
    by (simp add: amount_body_def)
  have d: "Decimal_of_amount (JStr ''12.50'') = Some (Finite False 1250 (- 2))" by code_simp
  have e: "first_failing (JStr ''12.50'') = None" by code_simp
  from deposit_adds_rounded [OF a b c d e] obtain fa where
    f: "round64 (dec_val False 1250 (- 2)) = Fin fa"
    and h: "handler Deposit (one_account (Fin 30)) ''1234'' (amount_body (JStr ''12.50''))
          = (Inr (Response 200 (Balance (round64 (30 + fa)))),
             set_balance (one_account (Fin 30)) ?acct (round64 (30 + fa)))"
    and n: "\<forall>r. round64 (30 + fa) = Fin r \<longrightarrow> nearest_float (30 + fa) r"
    by blast
  have r: "round64 (dec_val False 1250 (- 2)) = Fin (25 / 2)" by code_simp
  from f r have fa: "fa = 25 / 2" by simp
  have s: "round64 (30 + 25 / 2) = Fin (85 / 2)" by code_simp
  have t: "set_balance (one_account (Fin 30)) ?acct (Fin (85 / 2)) = one_account (Fin (85 / 2))"
    by code_simp
  from h have "handler Deposit (one_account (Fin 30)) ''1234'' (amount_body (JStr ''12.50''))
       = (Inr (Response 200 (Balance (Fin (85 / 2)))), one_account (Fin (85 / 2)))"
    by (simp only: fa s t)
  moreover have v: "dec_val False 1250 (- 2) = 25 / 2" by code_simp
  moreover have i: "is_float (dec_val False 1250 (- 2))" by code_simp
  moreover have j: "is_float (30 + dec_val False 1250 (- 2))" by code_simp
  moreover from n [unfolded fa, rule_format, OF s]
  have k: "nearest_float (30 + 25 / 2) (85 / 2)" .
  moreover have l: "is_float 42" by code_simp
  moreover from k l have m: "\<bar>85 / 2 - (30 + 25 / 2)\<bar> \<le> \<bar>42 - (30 + 25 / 2 :: rat)\<bar>"
    unfolding nearest_float_def by blast
  moreover have "\<bar>30 :: rat\<bar> \<le> 2 ^ 1022" by simp
  ultimately show ?thesis using a c d e r by (intro conjI)
qed

section \<open>What a withdrawal takes\<close>

text \<open>
  Claim C2, as stated, fails in its first half: the balance is a binary float. From an
  account created with the balance 0.3, the withdrawal of 0.1 succeeds and leaves
  0.1999999999999999833 (Python prints 0.19999999999999998), not 0.2; from an account of
  10000000000000000 the withdrawal of 1 succeeds and leaves the balance as it was.
\<close>

theorem withdraw_drift_counterexample:
  "create_account 1234 \<lparr>accounts = [], next_id = 1\<rparr> (JObj [''balance'' \<mapsto> JFloat ''0.3''])
     = Some (Inr (Response 201 (Created ''1234'' (Fin (5404319552844595 / 18014398509481984)))),
         one_account (Fin (5404319552844595 / 18014398509481984)))
   \<and> first_failing (JFloat ''0.1'') = None
   \<and> (1 / 10 :: rat) \<le> 5404319552844595 / 18014398509481984
   \<and> handler Withdraw (one_account (Fin (5404319552844595 / 18014398509481984))) ''1234''
         (amount_body (JFloat ''0.1''))
       = (Inr (Response 200 (Balance (Fin (7205759403792793 / 36028797018963968)))),
          one_account (Fin (7205759403792793 / 36028797018963968)))
   \<and> (7205759403792793 / 36028797018963968 :: rat)
       \<noteq> 5404319552844595 / 18014398509481984 - 1 / 10
   \<and> (7205759403792793 / 36028797018963968 :: rat) \<noteq> 3 / 10 - 1 / 10
   \<and> first_failing (JInt 1) = None
   \<and> (1 :: rat) \<le> 10000000000000000
   \<and> handler Withdraw (one_account (Fin 10000000000000000)) ''1234'' (amount_body (JInt 1))
       = (Inr (Response 200 (Balance (Fin 10000000000000000))),
          one_account (Fin 10000000000000000))
   \<and> (10000000000000000 :: rat) \<noteq> 10000000000000000 - 1"
proof (intro conjI)
  show "create_account 1234 \<lparr>accounts = [], next_id = 1\<rparr> (JObj [''balance'' \<mapsto> JFloat ''0.3''])
     = Some (Inr (Response 201 (Created ''1234'' (Fin (5404319552844595 / 18014398509481984)))),
         one_account (Fin (5404319552844595 / 18014398509481984)))"
    by code_simp
  show "first_failing (JFloat ''0.1'') = None" by code_simp
  show "(1 / 10 :: rat) \<le> 5404319552844595 / 18014398509481984" by simp
  show "handler Withdraw (one_account (Fin (5404319552844595 / 18014398509481984))) ''1234''
         (amount_body (JFloat ''0.1''))
       = (Inr (Response 200 (Balance (Fin (7205759403792793 / 36028797018963968)))),
          one_account (Fin (7205759403792793 / 36028797018963968)))"
    by code_simp
  show "(7205759403792793 / 36028797018963968 :: rat)
       \<noteq> 5404319552844595 / 18014398509481984 - 1 / 10" by simp
  show "(7205759403792793 / 36028797018963968 :: rat) \<noteq> 3 / 10 - 1 / 10" by simp
  show "first_failing (JInt 1) = None" by code_simp
  show "(1 :: rat) \<le> 10000000000000000" by simp
  show "handler Withdraw (one_account (Fin 10000000000000000)) ''1234'' (amount_body (JInt 1))
       = (Inr (Response 200 (Balance (Fin 10000000000000000))),
          one_account (Fin 10000000000000000))"
    by code_simp
  show "(10000000000000000 :: rat) \<noteq> 10000000000000000 - 1" by simp
qed

text \<open>
  Claim C2, amended. For every account with a finite balance \<open>b\<close> and every valid
  withdrawal amount \<open>a\<close>, with \<open>fl a\<close> the float nearest to \<open>a\<close>: if \<open>fl a \<le> b\<close>,
  which holds whenever \<open>a \<le> b\<close> and \<open>b\<close> is a float, the withdrawal succeeds and the
  persisted balance is the float nearest to \<open>b - fl a\<close> (it is \<open>b - a\<close> exactly when
  \<open>a\<close> and \<open>b - a\<close> are floats); if \<open>b < fl a\<close> it fails with "Insufficient balance"
  and the table is unchanged.
\<close>

theorem withdraw_subtracts_rounded:
  assumes "find_account st n = Some acct" and "balance acct = Fin b"
    and "amount_of data = Some raw" and "Decimal_of_amount raw = Some (Finite s c e)"
    and "first_failing raw = None"
  shows "\<exists>fa. round64 (dec_val s c e) = Fin fa
      \<and> \<bar>fa - dec_val s c e\<bar> \<le> dec_val s c e / 2 ^ 53
      \<and> (fa \<le> b \<longrightarrow>
            handler Withdraw st n data
              = (Inr (Response 200 (Balance (round64 (b - fa)))),
                 set_balance st acct (round64 (b - fa)))
            \<and> find_account (set_balance st acct (round64 (b - fa))) n
              = Some (acct\<lparr>balance := round64 (b - fa)\<rparr>))
      \<and> (b < fa \<longrightarrow>
            handler Withdraw st n data
              = (Inr (Response 400 (Error ''Insufficient balance'')), st))
      \<and> (dec_val s c e \<le> b \<and> is_float b \<longrightarrow> fa \<le> b)
      \<and> nearest_float (dec_val s c e) fa
      \<and> (\<forall>r. round64 (b - fa) = Fin r \<longrightarrow> nearest_float (b - fa) r)
      \<and> (is_float (dec_val s c e) \<and> is_float (b - dec_val s c e) \<longrightarrow>
            round64 (b - fa) = Fin (b - dec_val s c e))"
  using assms by (rule withdraw_float)

theorem withdraw_subtracts_rounded_witness:
  "find_account (one_account (Fin 50)) ''1234''
     = Some \<lparr>id_pk = 1, account_number = ''1234'', balance = Fin 50\<rparr>
   \<and> amount_of (amount_body (JStr ''20.00'')) = Some (JStr ''20.00'')
   \<and> Decimal_of_amount (JStr ''20.00'') = Some (Finite False 2000 (- 2))
   \<and> first_failing (JStr ''20.00'') = None
   \<and> handler Withdraw (one_account (Fin 50)) ''1234'' (amount_body (JStr ''20.00''))
       = (Inr (Response 200 (Balance (Fin 30))), one_account (Fin 30))
   \<and> handler Withdraw (one_account (Fin 30)) ''1234'' (amount_body (JStr ''1000.00''))
       = (Inr (Response 400 (Error ''Insufficient balance'')), one_account (Fin 30))
   \<and> round64 (dec_val False 2000 (- 2)) = Fin 20
   \<and> dec_val False 2000 (- 2) \<le> 50
   \<and> is_float 50
   \<and> is_float (dec_val False 2000 (- 2))
   \<and> is_float (50 - dec_val False 2000 (- 2))
   \<and> nearest_float (50 - 20) 30
   \<and> is_float 31 \<and> \<bar>30 - (50 - 20)\<bar> \<le> \<bar>31 - (50 - 20 :: rat)\<bar>"
proof -
  let ?acct = "\<lparr>id_pk = 1, account_number = ''1234'', balance = Fin 50\<rparr>"
  have a: "find_account (one_account (Fin 50)) ''1234'' = Some ?acct" by code_simp
  have b: "balance ?acct = Fin 50" by simp
  have c: "amount_of (amount_body (JStr ''20.00'')) = Some (JStr ''20.00'')"
    by (simp add: amount_body_def)
  have d: "Decimal_of_amount (JStr ''20.00'') = Some (Finite False 2000 (- 2))" by code_simp
  have e: "first_failing (JStr ''20.00'') = None" by code_simp
  from withdraw_subtracts_rounded [OF a b c d e] obtain fa where
    f: "round64 (dec_val False 2000 (- 2)) = Fin fa"
    and h: "fa \<le> 50 \<longrightarrow>
          handler Withdraw (one_account (Fin 50)) ''1234'' (amount_body (JStr ''20.00''))
          = (Inr (Response 200 (Balance (round64 (50 - fa)))),
             set_balance (one_account (Fin 50)) ?acct (round64 (50 - fa)))
          \<and> find_account (set_balance (one_account (Fin 50)) ?acct (round64 (50 - fa))) ''1234''
            = Some (?acct\<lparr>balance := round64 (50 - fa)\<rparr>)"
    and n: "\<forall>r. round64 (50 - fa) = Fin r \<longrightarrow> nearest_float (50 - fa) r"
    by blast
  have r: "round64 (dec_val False 2000 (- 2)) = Fin 20" by code_simp
  from f r have fa: "fa = 20" by simp
  have le: "(20::rat) \<le> 50" by simp
  have s: "round64 (50 - 20) = Fin 30" by code_simp
  have t: "set_balance (one_account (Fin 50)) ?acct (Fin 30) = one_account (Fin 30)"
    by code_simp
  from h [unfolded fa, rule_format, OF le, THEN conjunct1]
  have w: "handler Withdraw (one_account (Fin 50)) ''1234'' (amount_body (JStr ''20.00''))
       = (Inr (Response 200 (Balance (Fin 30))), one_account (Fin 30))"
    by (simp only: s t)
  have i: "handler Withdraw (one_account (Fin 30)) ''1234'' (amount_body (JStr ''1000.00''))
       = (Inr (Response 400 (Error ''Insufficient balance'')), one_account (Fin 30))"
    by code_simp
  have j: "dec_val False 2000 (- 2) \<le> 50" by code_simp
  have k: "is_float 50" by code_simp
  have l: "is_float (dec_val False 2000 (- 2))" by code_simp
  have m: "is_float (50 - dec_val False 2000 (- 2))" by code_simp
  from n [unfolded fa, rule_format, OF s]
  have o: "nearest_float (50 - 20) 30" .
  have u: "is_float 31" by code_simp
  from o u have v: "\<bar>30 - (50 - 20)\<bar> \<le> \<bar>31 - (50 - 20 :: rat)\<bar>"
    unfolding nearest_float_def by blast
  from a c d e w i r j k l m o u v show ?thesis by (intro conjI)
qed

section \<open>The message of each failure\<close>

lemma float_below_rounds:
  assumes "is_float b" and "b < a" and "round64 a = Fin fa"
  shows "b \<le> fa"
  using round64_nearest [OF assms(3,1)] assms(2) by linarith

lemma float_above_rounds:
  assumes "is_float b" and "a \<le> b" and "round64 a = Fin fa"
  shows "fa \<le> b"
  using round64_nearest [OF assms(3,1)] assms(2) by linarith

lemma condition_no_account:
  "find_account st n = None \<Longrightarrow> condition_of opn st n data = Some AccountMissing"
  by (simp add: condition_of_def request_condition_def)

lemma condition_no_amount:
  "find_account st n = Some a \<Longrightarrow> amount_of data = None \<Longrightarrow>
   condition_of opn st n data = Some AmountMissing"
  by (simp add: condition_of_def request_condition_def)

lemma condition_invalid:
  "find_account st n = Some a \<Longrightarrow> amount_of data = Some raw \<Longrightarrow> first_failing raw = Some k \<Longrightarrow>
   condition_of opn st n data = Some (Invalid k)"
  by (simp add: condition_of_def request_condition_def)

lemma condition_valid:
  "find_account st n = Some a \<Longrightarrow> amount_of data = Some raw \<Longrightarrow> first_failing raw = None \<Longrightarrow>
   Decimal_of_amount raw = Some (Finite s c e) \<Longrightarrow>
   condition_of opn st n data =
     (if opn = Withdraw \<and> balance_below (balance a) (dec_val s c e) then Some Insufficient
      else None)"
  by (simp add: condition_of_def request_condition_def insufficient_def)

lemma answer_no_account:
  assumes "find_account st n = None"
  shows "condition_of opn st n data = Some AccountMissing
       \<and> handler opn st n data = spec_answer opn AccountMissing st"
  using assms by (simp add: condition_no_account handler_no_account spec_answer_def)

lemma answer_no_amount:
  assumes "find_account st n \<noteq> None" and "is_payload data" and "amount_of data = None"
  shows "condition_of opn st n data = Some AmountMissing
       \<and> handler opn st n data = spec_answer opn AmountMissing st"
proof -
  from assms(1) obtain a where a: "find_account st n = Some a" by auto
  from assms(2,3) have f: "amount_field data = Inr None" by (cases data) simp_all
  from handler_no_field [OF a f] condition_no_amount [OF a assms(3)] show ?thesis
    by (simp add: spec_answer_def missing_amount_def)
qed

lemma answer_invalid:
  assumes "find_account st n \<noteq> None" and "amount_of data = Some raw"
    and "first_failing raw = Some k" and "\<forall>d. Decimal_of_amount raw = Some d \<longrightarrow> \<not> special d"
  shows "condition_of opn st n data = Some (Invalid k)
       \<and> handler opn st n data = spec_answer opn (Invalid k) st"
proof -
  from assms(1) obtain a where a: "find_account st n = Some a" by auto
  from rejects_first_failing [OF a assms(2,3,4)] condition_invalid [OF a assms(2,3)]
  show ?thesis by (simp add: spec_answer_def rejected_def)
qed

lemma answer_insufficient:
  assumes "find_account st n = Some acct" and "balance acct = Fin b" and "is_float b"
    and "amount_of data = Some raw" and "Decimal_of_amount raw = Some (Finite s c e)"
    and "first_failing raw = None" and "b < dec_val s c e"
  shows "condition_of Withdraw st n data = Some Insufficient"
    and "round64 (dec_val s c e) \<noteq> Fin b \<Longrightarrow>
         handler Withdraw st n data = spec_answer Withdraw Insufficient st"
    and "round64 (dec_val s c e) = Fin b \<Longrightarrow>
         handler Withdraw st n data
           = (Inr (Response 200 (Balance (Fin 0))), set_balance st acct (Fin 0))"
proof -
  from valid_amount_float [OF assms(5,6)] obtain fa where
    fa: "round64 (dec_val s c e) = Fin fa" by blast
  note w = withdraw_valid [OF assms(1,4,5,6), unfolded fa assms(2)]
  from float_below_rounds [OF assms(3,7) fa] have le: "b \<le> fa" .
  show "condition_of Withdraw st n data = Some Insufficient"
    using assms(2,7) by (simp add: condition_valid [OF assms(1,4,6,5)])
  show "handler Withdraw st n data = spec_answer Withdraw Insufficient st"
    if "round64 (dec_val s c e) \<noteq> Fin b"
  proof -
    from that fa le have "b < fa" by simp
    with w show ?thesis by (simp add: spec_answer_def)
  qed
  show "handler Withdraw st n data
           = (Inr (Response 200 (Balance (Fin 0))), set_balance st acct (Fin 0))"
    if "round64 (dec_val s c e) = Fin b"
  proof -
    from that fa have "fa = b" by simp
    with w show ?thesis by simp
  qed
qed

lemma answer_success:
  assumes "find_account st n = Some acct" and "balance acct = Fin b" and "is_float b"
    and "amount_of data = Some raw" and "condition_of opn st n data = None"
  shows "\<exists>x. handler opn st n data = (Inr (Response 200 (Balance x)), set_balance st acct x)"
proof -
  from assms(5) have ff: "first_failing raw = None"
    by (auto simp: condition_of_def request_condition_def assms(1,4)
          split: option.splits if_splits)
  from first_failing_valid [OF ff] obtain s c e where
    D: "Decimal_of_amount raw = Some (Finite s c e)" by blast
  from valid_amount_float [OF D ff] obtain fa where
    fa: "round64 (dec_val s c e) = Fin fa" by blast
  show ?thesis
  proof (cases opn)
    case Deposit
    with deposit_valid [OF assms(1,4) D ff] show ?thesis by blast
  next
    case Withdraw
    from assms(5) have "\<not> b < dec_val s c e"
      unfolding condition_valid [OF assms(1,4) ff D] Withdraw assms(2)
      by (simp split: if_splits)
    then have "dec_val s c e \<le> b" by simp
    from float_above_rounds [OF assms(3) this fa] have "fa \<le> b" .
    with withdraw_valid [OF assms(1,4) D ff, unfolded fa assms(2)] Withdraw
    show ?thesis by simp
  qed
qed

lemma answer_scalar:
  assumes "find_account st n \<noteq> None" and "is_scalar data"
  shows "condition_of opn st n data = Some AmountMissing
       \<and> handler opn st n data = (Inl TypeError, st)"
proof -
  from assms(1) obtain a where a: "find_account st n = Some a" by auto
  from assms(2) have f: "amount_field data = Inl TypeError" and n: "amount_of data = None"
    by (cases data; simp)+
  from handler_field_raises [OF a f] condition_no_amount [OF a n] show ?thesis by simp
qed

lemma answer_text:
  assumes "find_account st n \<noteq> None"
  shows "condition_of opn st n (JStr t) = Some AmountMissing
       \<and> handler opn st n (JStr t)
           = (if contains ''amount'' t then (Inl AttributeError, st)
              else spec_answer opn AmountMissing st)"
proof -
  from assms(1) obtain a where a: "find_account st n = Some a" by auto
  have n: "amount_of (JStr t) = None" by simp
  show ?thesis
  proof (cases "contains ''amount'' t")
    case True
    then have "amount_field (JStr t) = Inl AttributeError" by simp
    from handler_field_raises [OF a this] condition_no_amount [OF a n] True
    show ?thesis by simp
  next
    case False
    then have "amount_field (JStr t) = Inr None" by simp
    from handler_no_field [OF a this] condition_no_amount [OF a n] False
    show ?thesis by (simp add: spec_answer_def missing_amount_def)
  qed
qed

lemma answer_list:
  assumes "find_account st n \<noteq> None"
  shows "condition_of opn st n (JArr xs) = Some AmountMissing
       \<and> handler opn st n (JArr xs)
           = (if has_str ''amount'' xs then (Inl AttributeError, st)
              else spec_answer opn AmountMissing st)"
proof -
  from assms(1) obtain a where a: "find_account st n = Some a" by auto
  have n: "amount_of (JArr xs) = None" by simp
  show ?thesis
  proof (cases "has_str ''amount'' xs")
    case True
    then have "amount_field (JArr xs) = Inl AttributeError" by simp
    from handler_field_raises [OF a this] condition_no_amount [OF a n] True
    show ?thesis by simp
  next
    case False
    then have "amount_field (JArr xs) = Inr None" by simp
    from handler_no_field [OF a this] condition_no_amount [OF a n] False
    show ?thesis by (simp add: spec_answer_def missing_amount_def)
  qed
qed

lemma answer_special:
  assumes "find_account st n \<noteq> None" and "amount_of data = Some raw"
    and "Decimal_of_amount raw = Some d" and "special d"
  shows "condition_of opn st n data = Some (Invalid NotNumeric)
       \<and> handler opn st n data
           = (case d of
                NaN _ _ \<Rightarrow> (Inl InvalidOperation, st)
              | Infinity s \<Rightarrow>
                  if s then spec_answer opn (Invalid Negative) st else (Inl TypeError, st)
              | Finite _ _ _ \<Rightarrow> spec_answer opn (Invalid NotNumeric) st)"
proof -
  from assms(1) obtain a where a: "find_account st n = Some a" by auto
  note f = amount_of_field [OF assms(2)]
  from assms(3,4) have ff: "first_failing raw = Some NotNumeric"
    by (cases d) (simp_all add: first_failing_Infinity first_failing_NaN)
  note c = condition_invalid [OF a assms(2) ff]
  show ?thesis
  proof (cases d)
    case (Finite s c e)
    with assms(4) show ?thesis by simp
  next
    case (Infinity s)
    with assms(3) have D: "Decimal_of_amount raw = Some (Infinity s)" by simp
    from handler_Infinity [OF a f D] c Infinity show ?thesis
      by (simp add: spec_answer_def rejected_def)
  next
    case (NaN s g)
    with assms(3) have D: "Decimal_of_amount raw = Some (NaN s g)" by simp
    from handler_NaN [OF a f D] c NaN show ?thesis by simp
  qed
qed

text \<open>
  Claim C8, which the handlers miss on the requests they raise on. The condition of a
  request is the first that holds of: the account is missing, the amount field is
  missing, a validation rule fails, and for a withdrawal the balance is below the amount.
  A request on a missing account is answered 404 with "Account not found"; on an existing
  account, a request with no body or with an object that has no amount, and a request
  whose amount fails a rule and is no infinity and no NaN, are answered 400 with the
  message that section 6 gives for the condition, and the table is left as it was; a
  withdrawal of a valid amount above a balance that is a float is answered 400 with
  "Insufficient balance", unless the balance is the float nearest to the amount, when the
  withdrawal is made and leaves 0; and a request with an amount on which no condition
  holds is answered 200. But some failed requests get no message: a body that is a
  number or a boolean raises TypeError, a string or a list that holds \<^verbatim>\<open>amount\<close> raises
  AttributeError, a NaN raises InvalidOperation and the positive infinity TypeError; and
  the negative infinity gets the message of Negative, not of NotNumeric.
\<close>

theorem error_messages:
  "(find_account st n = None \<longrightarrow>
      condition_of opn st n data = Some AccountMissing
      \<and> handler opn st n data = spec_answer opn AccountMissing st)
   \<and> (find_account st n \<noteq> None \<and> is_payload data \<and> amount_of data = None \<longrightarrow>
      condition_of opn st n data = Some AmountMissing
      \<and> handler opn st n data = spec_answer opn AmountMissing st)
   \<and> (\<forall>raw k. find_account st n \<noteq> None \<and> amount_of data = Some raw
        \<and> first_failing raw = Some k \<and> (\<forall>d. Decimal_of_amount raw = Some d \<longrightarrow> \<not> special d) \<longrightarrow>
      condition_of opn st n data = Some (Invalid k)
      \<and> handler opn st n data = spec_answer opn (Invalid k) st)
   \<and> (\<forall>acct b raw s c e. find_account st n = Some acct \<and> balance acct = Fin b \<and> is_float b
        \<and> amount_of data = Some raw \<and> Decimal_of_amount raw = Some (Finite s c e)
        \<and> first_failing raw = None \<and> b < dec_val s c e \<longrightarrow>
      condition_of Withdraw st n data = Some Insufficient
      \<and> (round64 (dec_val s c e) \<noteq> Fin b \<longrightarrow>
           handler Withdraw st n data = spec_answer Withdraw Insufficient st)
      \<and> (round64 (dec_val s c e) = Fin b \<longrightarrow>
           handler Withdraw st n data
             = (Inr (Response 200 (Balance (Fin 0))), set_balance st acct (Fin 0))))
   \<and> (\<forall>acct b raw. find_account st n = Some acct \<and> balance acct = Fin b \<and> is_float b
        \<and> amount_of data = Some raw \<and> condition_of opn st n data = None \<longrightarrow>
      (\<exists>x. handler opn st n data = (Inr (Response 200 (Balance x)), set_balance st acct x)))
   \<and> (find_account st n \<noteq> None \<and> is_scalar data \<longrightarrow>
      condition_of opn st n data = Some AmountMissing
      \<and> handler opn st n data = (Inl TypeError, st))
   \<and> (\<forall>t. find_account st n \<noteq> None \<and> data = JStr t \<longrightarrow>
      condition_of opn st n data = Some AmountMissing
      \<and> handler opn st n data
          = (if contains ''amount'' t then (Inl AttributeError, st)
             else spec_answer opn AmountMissing st))
   \<and> (\<forall>xs. find_account st n \<noteq> None \<and> data = JArr xs \<longrightarrow>
      condition_of opn st n data = Some AmountMissing
      \<and> handler opn st n data
          = (if has_str ''amount'' xs then (Inl AttributeError, st)
             else spec_answer opn AmountMissing st))
   \<and> (\<forall>raw d. find_account st n \<noteq> None \<and> amount_of data = Some raw
        \<and> Decimal_of_amount raw = Some d \<and> special d \<longrightarrow>
      condition_of opn st n data = Some (Invalid NotNumeric)
      \<and> handler opn st n data
          = (case d of
               NaN _ _ \<Rightarrow> (Inl InvalidOperation, st)
             | Infinity s \<Rightarrow>
                 if s then spec_answer opn (Invalid Negative) st else (Inl TypeError, st)
             | Finite _ _ _ \<Rightarrow> spec_answer opn (Invalid NotNumeric) st))"
proof -
  have 1: "find_account st n = None \<longrightarrow>
      condition_of opn st n data = Some AccountMissing
      \<and> handler opn st n data = spec_answer opn AccountMissing st"
    using answer_no_account by blast
  have 2: "find_account st n \<noteq> None \<and> is_payload data \<and> amount_of data = None \<longrightarrow>
      condition_of opn st n data = Some AmountMissing
      \<and> handler opn st n data = spec_answer opn AmountMissing st"
    using answer_no_amount by blast
  have 3: "\<forall>raw k. find_account st n \<noteq> None \<and> amount_of data = Some raw
        \<and> first_failing raw = Some k \<and> (\<forall>d. Decimal_of_amount raw = Some d \<longrightarrow> \<not> special d) \<longrightarrow>
      condition_of opn st n data = Some (Invalid k)
      \<and> handler opn st n data = spec_answer opn (Invalid k) st"
    using answer_invalid by blast
  have 4: "\<forall>acct b raw s c e. find_account st n = Some acct \<and> balance acct = Fin b \<and> is_float b
        \<and> amount_of data = Some raw \<and> Decimal_of_amount raw = Some (Finite s c e)
        \<and> first_failing raw = None \<and> b < dec_val s c e \<longrightarrow>
      condition_of Withdraw st n data = Some Insufficient
      \<and> (round64 (dec_val s c e) \<noteq> Fin b \<longrightarrow>
           handler Withdraw st n data = spec_answer Withdraw Insufficient st)
      \<and> (round64 (dec_val s c e) = Fin b \<longrightarrow>
           handler Withdraw st n data
             = (Inr (Response 200 (Balance (Fin 0))), set_balance st acct (Fin 0)))"
  proof (intro allI impI, elim conjE)
    fix acct b raw s c e
    assume h: "find_account st n = Some acct" "balance acct = Fin b" "is_float b"
      "amount_of data = Some raw" "Decimal_of_amount raw = Some (Finite s c e)"
      "first_failing raw = None" "b < dec_val s c e"
    from answer_insufficient [OF h]
    show "condition_of Withdraw st n data = Some Insufficient
      \<and> (round64 (dec_val s c e) \<noteq> Fin b \<longrightarrow>
           handler Withdraw st n data = spec_answer Withdraw Insufficient st)
      \<and> (round64 (dec_val s c e) = Fin b \<longrightarrow>
           handler Withdraw st n data
             = (Inr (Response 200 (Balance (Fin 0))), set_balance st acct (Fin 0)))"
      by (intro conjI impI)
  qed
  have 5: "\<forall>acct b raw. find_account st n = Some acct \<and> balance acct = Fin b \<and> is_float b
        \<and> amount_of data = Some raw \<and> condition_of opn st n data = None \<longrightarrow>
      (\<exists>x. handler opn st n data = (Inr (Response 200 (Balance x)), set_balance st acct x))"
    using answer_success by blast
  have 6: "find_account st n \<noteq> None \<and> is_scalar data \<longrightarrow>
      condition_of opn st n data = Some AmountMissing
      \<and> handler opn st n data = (Inl TypeError, st)"
    using answer_scalar by blast
  have 7: "\<forall>t. find_account st n \<noteq> None \<and> data = JStr t \<longrightarrow>
      condition_of opn st n data = Some AmountMissing
      \<and> handler opn st n data
          = (if contains ''amount'' t then (Inl AttributeError, st)
             else spec_answer opn AmountMissing st)"
    using answer_text by blast
  have 8: "\<forall>xs. find_account st n \<noteq> None \<and> data = JArr xs \<longrightarrow>
      condition_of opn st n data = Some AmountMissing
      \<and> handler opn st n data
          = (if has_str ''amount'' xs then (Inl AttributeError, st)
             else spec_answer opn AmountMissing st)"
    using answer_list by blast
  have 9: "\<forall>raw d. find_account st n \<noteq> None \<and> amount_of data = Some raw
        \<and> Decimal_of_amount raw = Some d \<and> special d \<longrightarrow>
      condition_of opn st n data = Some (Invalid NotNumeric)
      \<and> handler opn st n data
          = (case d of
               NaN _ _ \<Rightarrow> (Inl InvalidOperation, st)
             | Infinity s \<Rightarrow>
                 if s then spec_answer opn (Invalid Negative) st else (Inl TypeError, st)
             | Finite _ _ _ \<Rightarrow> spec_answer opn (Invalid NotNumeric) st)"
    using answer_special by blast
  from 1 2 3 4 5 6 7 8 9 show ?thesis by (intro conjI)
qed

theorem error_messages_witness:
  "find_account (one_account (Fin 30)) ''0000'' = None
   \<and> handler Deposit (one_account (Fin 30)) ''0000'' (amount_body (JStr ''abc''))
       = (Inr (Response 404 (Error ''Account not found'')), one_account (Fin 30))
   \<and> find_account (one_account (Fin 30)) ''1234'' \<noteq> None
   \<and> is_payload JNull \<and> amount_of JNull = None
   \<and> handler Withdraw (one_account (Fin 30)) ''1234'' JNull
       = (Inr (Response 400
            (Error (''Invalid or missing JSON payload or 'amount'' @ [CHR 0x27]))),
          one_account (Fin 30))
   \<and> first_failing (JStr ''1.005'') = Some TooManyDecimals
   \<and> handler Withdraw (one_account (Fin 30)) ''1234'' (amount_body (JStr ''1.005''))
       = (Inr (Response 400
            (Error ''Withdrawal failed - Amount must have at most 2 decimal places'')),
          one_account (Fin 30))
   \<and> first_failing (JInt (- 5)) = Some Negative
   \<and> handler Deposit (one_account (Fin 30)) ''1234'' (amount_body (JInt (- 5)))
       = (Inr (Response 400 (Error ''Amount cannot be negative'')), one_account (Fin 30))
   \<and> first_failing (JInt 0) = Some Zero
   \<and> handler Deposit (one_account (Fin 30)) ''1234'' (amount_body (JInt 0))
       = (Inr (Response 400 (Error ''Amount must be greater than zero'')), one_account (Fin 30))
   \<and> first_failing (JInt 100000000) = Some ExceedsMaximum
   \<and> handler Deposit (one_account (Fin 30)) ''1234'' (amount_body (JInt 100000000))
       = (Inr (Response 400 (Error ''Amount exceeds maximum allowed value'')),
          one_account (Fin 30))
   \<and> is_float 30 \<and> first_failing (JInt 1000) = None \<and> 30 < dec_val False 1000 0
   \<and> round64 (dec_val False 1000 0) \<noteq> Fin 30
   \<and> handler Withdraw (one_account (Fin 30)) ''1234'' (amount_body (JInt 1000))
       = (Inr (Response 400 (Error ''Insufficient balance'')), one_account (Fin 30))
   \<and> is_float (5404319552844595 / 18014398509481984)
   \<and> first_failing (JStr ''0.3'') = None
   \<and> 5404319552844595 / 18014398509481984 < dec_val False 3 (- 1)
   \<and> round64 (dec_val False 3 (- 1)) = Fin (5404319552844595 / 18014398509481984)
   \<and> condition_of Withdraw (one_account (Fin (5404319552844595 / 18014398509481984))) ''1234''
         (amount_body (JStr ''0.3'')) = Some Insufficient
   \<and> handler Withdraw (one_account (Fin (5404319552844595 / 18014398509481984))) ''1234''
         (amount_body (JStr ''0.3''))
       = (Inr (Response 200 (Balance (Fin 0))), one_account (Fin 0))
   \<and> condition_of Withdraw (one_account (Fin 30)) ''1234'' (amount_body (JStr ''20.00'')) = None
   \<and> (\<exists>x. handler Withdraw (one_account (Fin 30)) ''1234'' (amount_body (JStr ''20.00''))
            = (Inr (Response 200 (Balance x)),
               set_balance (one_account (Fin 30))
                 \<lparr>id_pk = 1, account_number = ''1234'', balance = Fin 30\<rparr> x))
   \<and> is_scalar (JInt 5)
   \<and> condition_of Deposit (one_account (Fin 30)) ''1234'' (JInt 5) = Some AmountMissing
   \<and> handler Deposit (one_account (Fin 30)) ''1234'' (JInt 5)
       = (Inl TypeError, one_account (Fin 30))
   \<and> contains ''amount'' ''my amount''
   \<and> handler Withdraw (one_account (Fin 30)) ''1234'' (JStr ''my amount'')
       = (Inl AttributeError, one_account (Fin 30))
   \<and> has_str ''amount'' [JStr ''amount'']
   \<and> handler Deposit (one_account (Fin 30)) ''1234'' (JArr [JStr ''amount''])
       = (Inl AttributeError, one_account (Fin 30))
   \<and> Decimal_of_amount (JStr ''NaN'') = Some (NaN False False)
   \<and> condition_of Deposit (one_account (Fin 30)) ''1234'' (amount_body (JStr ''NaN''))
       = Some (Invalid NotNumeric)
   \<and> handler Deposit (one_account (Fin 30)) ''1234'' (amount_body (JStr ''NaN''))
       = (Inl InvalidOperation, one_account (Fin 30))
   \<and> Decimal_of_amount (JStr ''Infinity'') = Some (Infinity False)
   \<and> handler Withdraw (one_account (Fin 30)) ''1234'' (amount_body (JStr ''Infinity''))
       = (Inl TypeError, one_account (Fin 30))
   \<and> Decimal_of_amount (JStr ''-Infinity'') = Some (Infinity True)
   \<and> condition_of Deposit (one_account (Fin 30)) ''1234'' (amount_body (JStr ''-Infinity''))
       = Some (Invalid NotNumeric)
   \<and> handler Deposit (one_account (Fin 30)) ''1234'' (amount_body (JStr ''-Infinity''))
       = (Inr (Response 400 (Error ''Amount cannot be negative'')), one_account (Fin 30))"
proof -
  let ?st = "one_account (Fin 30)"
  let ?a = "\<lparr>id_pk = 1, account_number = ''1234'', balance = Fin 30\<rparr>"
  let ?b3 = "5404319552844595 / 18014398509481984 :: rat"
  let ?a3 = "\<lparr>id_pk = 1, account_number = ''1234'', balance = Fin ?b3\<rparr>"
  have b: "amount_of (amount_body v) = Some v" for v by (simp add: amount_body_def)
  have sa: "spec_answer opn c st = (Inr (Response (spec_status c) (Error (spec_message opn c))), st)"
    for opn c st by (simp add: spec_answer_def)
  have a0: "find_account ?st ''0000'' = None" by code_simp
  from error_messages [of ?st "''0000''" Deposit "amount_body (JStr ''abc'')", THEN conjunct1,
    rule_format, OF a0, THEN conjunct2]
  have h0: "handler Deposit ?st ''0000'' (amount_body (JStr ''abc''))
       = (Inr (Response 404 (Error ''Account not found'')), ?st)"
    by (simp add: sa)
  have a: "find_account ?st ''1234'' = Some ?a" by code_simp
  then have a': "find_account ?st ''1234'' \<noteq> None" by simp
  have p1: "is_payload JNull" and q1: "amount_of JNull = None" by simp_all
  from error_messages [of ?st "''1234''" Withdraw JNull, THEN conjunct2, THEN conjunct1,
    rule_format, OF conjI [OF a' conjI [OF p1 q1]], THEN conjunct2]
  have h1: "handler Withdraw ?st ''1234'' JNull
       = (Inr (Response 400
            (Error (''Invalid or missing JSON payload or 'amount'' @ [CHR 0x27]))), ?st)"
    by (simp add: sa)
  have inv: "handler opn ?st ''1234'' (amount_body raw)
       = (Inr (Response 400 (Error (validation_message opn k))), ?st)"
    if "first_failing raw = Some k" "Decimal_of_amount raw = Some (Finite s c e)"
    for opn raw k s c e
  proof -
    from that(2) have n: "\<forall>d. Decimal_of_amount raw = Some d \<longrightarrow> \<not> special d" by simp
    from error_messages [of ?st "''1234''" opn "amount_body raw", THEN conjunct2, THEN conjunct2,
      THEN conjunct1, rule_format, OF conjI [OF a' conjI [OF b conjI [OF that(1) n]]],
      THEN conjunct2]
    show ?thesis by (simp add: sa)
  qed
  have f2: "first_failing (JStr ''1.005'') = Some TooManyDecimals" by code_simp
  have d2: "Decimal_of_amount (JStr ''1.005'') = Some (Finite False 1005 (- 3))" by code_simp
  from inv [OF f2 d2, of Withdraw]
  have h2: "handler Withdraw ?st ''1234'' (amount_body (JStr ''1.005''))
       = (Inr (Response 400
            (Error ''Withdrawal failed - Amount must have at most 2 decimal places'')), ?st)"
    by (simp add: validation_message.simps)
  have f3: "first_failing (JInt (- 5)) = Some Negative" by code_simp
  have d3: "Decimal_of_amount (JInt (- 5)) = Some (Finite True 5 0)" by code_simp
  from inv [OF f3 d3, of Deposit]
  have h3: "handler Deposit ?st ''1234'' (amount_body (JInt (- 5)))
       = (Inr (Response 400 (Error ''Amount cannot be negative'')), ?st)"
    by (simp add: validation_message.simps)
  have f4: "first_failing (JInt 0) = Some Zero" by code_simp
  have d4: "Decimal_of_amount (JInt 0) = Some (Finite False 0 0)" by code_simp
  from inv [OF f4 d4, of Deposit]
  have h4: "handler Deposit ?st ''1234'' (amount_body (JInt 0))
       = (Inr (Response 400 (Error ''Amount must be greater than zero'')), ?st)"
    by (simp add: validation_message.simps)
  have f5: "first_failing (JInt 100000000) = Some ExceedsMaximum" by code_simp
  have d5: "Decimal_of_amount (JInt 100000000) = Some (Finite False 100000000 0)" by code_simp
  from inv [OF f5 d5, of Deposit]
  have h5: "handler Deposit ?st ''1234'' (amount_body (JInt 100000000))
       = (Inr (Response 400 (Error ''Amount exceeds maximum allowed value'')), ?st)"
    by (simp add: validation_message.simps)
  have fl30: "is_float 30" by code_simp
  have f6: "first_failing (JInt 1000) = None" by code_simp
  have d6: "Decimal_of_amount (JInt 1000) = Some (Finite False 1000 0)" by code_simp
  have l6: "30 < dec_val False 1000 0" by code_simp
  have r6: "round64 (dec_val False 1000 0) \<noteq> Fin 30" by code_simp
  have bal: "balance ?a = Fin 30" by simp
  from error_messages [of ?st "''1234''" Withdraw "amount_body (JInt 1000)", THEN conjunct2,
    THEN conjunct2, THEN conjunct2, THEN conjunct1, rule_format,
    OF conjI [OF a conjI [OF bal conjI [OF fl30 conjI [OF b conjI [OF d6 conjI [OF f6 l6]]]]]],
    THEN conjunct2, THEN conjunct1, rule_format, OF r6]
  have h6: "handler Withdraw ?st ''1234'' (amount_body (JInt 1000))
       = (Inr (Response 400 (Error ''Insufficient balance'')), ?st)"
    by (simp add: sa)
  have a3: "find_account (one_account (Fin ?b3)) ''1234'' = Some ?a3" by code_simp
  have bal3: "balance ?a3 = Fin ?b3" by simp
  have fl3: "is_float ?b3" by code_simp
  have f7: "first_failing (JStr ''0.3'') = None" by code_simp
  have d7: "Decimal_of_amount (JStr ''0.3'') = Some (Finite False 3 (- 1))" by code_simp
  have l7: "?b3 < dec_val False 3 (- 1)" by code_simp
  have r7: "round64 (dec_val False 3 (- 1)) = Fin ?b3" by code_simp
  note t7 = error_messages [of "one_account (Fin ?b3)" "''1234''" Withdraw
    "amount_body (JStr ''0.3'')", THEN conjunct2,
    THEN conjunct2, THEN conjunct2, THEN conjunct1, rule_format,
    OF conjI [OF a3 conjI [OF bal3 conjI [OF fl3 conjI [OF b conjI [OF d7 conjI [OF f7 l7]]]]]]]
  have s7: "set_balance (one_account (Fin ?b3)) ?a3 (Fin 0) = one_account (Fin 0)" by code_simp
  from t7 [THEN conjunct2, THEN conjunct2, rule_format, OF r7]
  have h7: "handler Withdraw (one_account (Fin ?b3)) ''1234'' (amount_body (JStr ''0.3''))
       = (Inr (Response 200 (Balance (Fin 0))), one_account (Fin 0))"
    by (simp only: s7)
  have c8: "condition_of Withdraw ?st ''1234'' (amount_body (JStr ''20.00'')) = None"
    by code_simp
  note h8 = error_messages [of ?st "''1234''" Withdraw "amount_body (JStr ''20.00'')",
    THEN conjunct2, THEN conjunct2, THEN conjunct2, THEN conjunct2, THEN conjunct1, rule_format,
    OF conjI [OF a conjI [OF bal conjI [OF fl30 conjI [OF b c8]]]]]
  have p9: "is_scalar (JInt 5)" by simp
  note t9 = error_messages [of ?st "''1234''" Deposit "JInt 5",
    THEN conjunct2, THEN conjunct2, THEN conjunct2, THEN conjunct2, THEN conjunct2,
    THEN conjunct1, rule_format, OF conjI [OF a' p9]]
  have p10: "contains ''amount'' ''my amount''" by code_simp
  from error_messages [of ?st "''1234''" Withdraw "JStr ''my amount''",
    THEN conjunct2, THEN conjunct2, THEN conjunct2, THEN conjunct2, THEN conjunct2,
    THEN conjunct2, THEN conjunct1, rule_format, OF conjI [OF a' refl], THEN conjunct2]
  have h10: "handler Withdraw ?st ''1234'' (JStr ''my amount'') = (Inl AttributeError, ?st)"
    by (simp only: p10 if_True)
  have p11: "has_str ''amount'' [JStr ''amount'']" by simp
  from error_messages [of ?st "''1234''" Deposit "JArr [JStr ''amount'']",
    THEN conjunct2, THEN conjunct2, THEN conjunct2, THEN conjunct2, THEN conjunct2,
    THEN conjunct2, THEN conjunct2, THEN conjunct1, rule_format, OF conjI [OF a' refl],
    THEN conjunct2]
  have h11: "handler Deposit ?st ''1234'' (JArr [JStr ''amount'']) = (Inl AttributeError, ?st)"
    by (simp only: p11 if_True)
  have sp: "handler opn ?st ''1234'' (amount_body raw)
          = (case d of
               NaN _ _ \<Rightarrow> (Inl InvalidOperation, ?st)
             | Infinity s \<Rightarrow>
                 if s then spec_answer opn (Invalid Negative) ?st else (Inl TypeError, ?st)
             | Finite _ _ _ \<Rightarrow> spec_answer opn (Invalid NotNumeric) ?st)"
    and spc: "condition_of opn ?st ''1234'' (amount_body raw) = Some (Invalid NotNumeric)"
    if "Decimal_of_amount raw = Some d" "special d" for opn raw d
    using error_messages [of ?st "''1234''" opn "amount_body raw",
      THEN conjunct2, THEN conjunct2, THEN conjunct2, THEN conjunct2, THEN conjunct2,
      THEN conjunct2, THEN conjunct2, THEN conjunct2, rule_format,
      OF conjI [OF a' conjI [OF b conjI [OF that]]]]
    by simp_all
  have d12: "Decimal_of_amount (JStr ''NaN'') = Some (NaN False False)" by code_simp
  from sp [OF d12, of Deposit]
  have h12: "handler Deposit ?st ''1234'' (amount_body (JStr ''NaN'')) = (Inl InvalidOperation, ?st)"
    by simp
  note c12 = spc [OF d12, of Deposit, simplified]
  have d13: "Decimal_of_amount (JStr ''Infinity'') = Some (Infinity False)" by code_simp
  from sp [OF d13, of Withdraw]
  have h13: "handler Withdraw ?st ''1234'' (amount_body (JStr ''Infinity'')) = (Inl TypeError, ?st)"
    by simp
  have d14: "Decimal_of_amount (JStr ''-Infinity'') = Some (Infinity True)" by code_simp
  from sp [OF d14, of Deposit]
  have h14: "handler Deposit ?st ''1234'' (amount_body (JStr ''-Infinity''))
       = (Inr (Response 400 (Error ''Amount cannot be negative'')), ?st)"
    by (simp add: sa validation_message.simps)
  note c14 = spc [OF d14, of Deposit, simplified]
  from a0 h0 a' p1 q1 h1 f2 h2 f3 h3 f4 h4 f5 h5 fl30 f6 l6 r6 h6 fl3 f7 l7 r7
    t7 [THEN conjunct1] h7 c8 h8 p9 t9 [THEN conjunct1] t9 [THEN conjunct2] p10 h10 p11 h11
    d12 c12 h12 d13 h13 d14 c14 h14
  show ?thesis by (intro conjI)
qed

end
